theory Spec2Isabelle
  imports Main "HOL-Library.List_Lexorder" "HOL-Library.Product_Lexorder"
begin

section \<open>Text\<close>

text \<open>
  A Python \<open>str\<close> is a sequence of Unicode code points, and so is the text of a TEXT
  column: both are modelled as lists of code points. The texts of the program come from
  the request parser and from the HTML parser, which deliver no lone surrogate. The
  order of \<open>nat list\<close> is the lexicographic one, which is the order of SQLite's BINARY
  collation (UTF-8 keeps the order of code points under bytewise comparison, and a
  proper prefix comes first).
\<close>

type_synonym pystr = "nat list"

text \<open>\<open>str.isspace\<close> of one character: the characters that \<open>str.strip()\<close> removes.\<close>

definition py_isspace :: "nat \<Rightarrow> bool" where
  "py_isspace c = (c \<in> set [9, 10, 11, 12, 13, 28, 29, 30, 31, 32, 133, 160, 5760,
     8192, 8193, 8194, 8195, 8196, 8197, 8198, 8199, 8200, 8201, 8202,
     8232, 8233, 8239, 8287, 12288])"

text \<open>\<open>s.strip()\<close>: whitespace is dropped at both ends.\<close>

definition py_strip :: "pystr \<Rightarrow> pystr" where
  "py_strip s = rev (dropWhile py_isspace (rev (dropWhile py_isspace s)))"

text \<open>The number of bytes of a text in UTF-8, the encoding in which it is bound.\<close>

definition utf8_bytes :: "nat \<Rightarrow> nat" where
  "utf8_bytes c = (if c < 128 then 1 else if c < 2048 then 2 else if c < 65536 then 3 else 4)"

definition utf8_length :: "pystr \<Rightarrow> nat" where
  "utf8_length s = sum_list (map utf8_bytes s)"

section \<open>Exceptions\<close>

text \<open>
  The exceptions that the modelled statements raise: \<open>ValueError\<close> from \<open>int\<close>;
  \<open>OverflowError\<close> from the binding of an integer that SQLite's 64-bit INTEGER cannot
  hold; \<open>DataError\<close> from the binding of a text of more than 10^9 bytes;
  \<open>OperationalError\<close> from a LIKE pattern of more than 50000 bytes; and
  \<open>DatabaseError\<close>, which stands for whatever subclass of it SQLite raises when it
  refuses to write a row.
\<close>

datatype py_error = ValueError | OverflowError | DataError | OperationalError | DatabaseError

section \<open>The store\<close>

text \<open>
  The two tables of \<open>init_db\<close>, each as the list of its rows in rowid order. The column
  \<open>id\<close> (an AUTOINCREMENT surrogate key) is neither written nor read by any statement
  of the program and is left out. A row of \<open>melon_chart_data\<close> holds the three values
  of an item of the scraped chart (\<open>ranking\<close> holds the item's \<open>rank\<close>), so one record
  serves for the item \<open>{"rank", "title", "artist"}\<close> and for the row.

  An INTEGER of SQLite is a signed 64-bit integer: \<open>int64\<close> says that a Python integer
  is one, and the binding of any other integer raises OverflowError. The column
  \<open>count\<close> holds an INTEGER, or the REAL 2^63 that SQLite leaves there when
  \<open>count + 1\<close> overflows: the sum of 2^63 - 1 and 1 is computed in floating point, and
  so is every later sum, which is 2^63 again.
\<close>

definition int64 :: "int \<Rightarrow> bool" where
  "int64 n = (- 9223372036854775808 \<le> n \<and> n \<le> 9223372036854775807)"

datatype sql_count = Integer int | Real_2_63

definition sql_add_one :: "sql_count \<Rightarrow> sql_count" where
  "sql_add_one c =
     (case c of
        Integer n \<Rightarrow> if n < 9223372036854775807 then Integer (n + 1) else Real_2_63
      | Real_2_63 \<Rightarrow> Real_2_63)"

record chart_entry =
  rank :: int
  title :: pystr
  artist :: pystr

record search_row =
  keyword :: pystr
  count :: sql_count

record db =
  search_count :: "search_row list"
  melon_chart_data :: "chart_entry list"

text \<open>
  SQLite can refuse to write a row for reasons that the model does not follow: the
  record of the row is longer than SQLITE_MAX_LENGTH (10^9 bytes, counted with the
  record's header and, in an index, with the rowid), the rowids of the AUTOINCREMENT
  key are used up, the disk is full, the database is locked. The functions that write
  take the verdict as a parameter: \<open>refuses s r\<close> says that SQLite, in the state \<open>s\<close>,
  refuses to write the row \<open>r\<close>, and the statement then raises.

  A function that writes returns the store that it commits, or the exception that
  leaves it before \<open>db.commit()\<close>. In that case \<open>close_db\<close> closes the connection at
  the end of the request, SQLite rolls the open transaction back, and the store is what
  it was: \<open>store_after\<close> is the store that the next request finds.
\<close>

definition store_after :: "db \<Rightarrow> py_error + db \<Rightarrow> db" where
  "store_after d result = (case result of Inl e \<Rightarrow> d | Inr d' \<Rightarrow> d')"

text \<open>
  \<open>increment_search_count\<close>: the UPDATE adds one to the count of every row of the
  keyword; \<open>cur.rowcount\<close> is the number of rows it changed; when there is none, the
  INSERT appends a row with count 1 (no row has the keyword then, so the UNIQUE
  constraint on \<open>keyword\<close> cannot fail).
\<close>

definition increment_search_count ::
  "(db \<Rightarrow> search_row \<Rightarrow> bool) \<Rightarrow> db \<Rightarrow> pystr \<Rightarrow> py_error + db" where
  "increment_search_count refuses d k =
     (let matching = filter (\<lambda>r. keyword r = k) (search_count d);
          updated = map (\<lambda>r. if keyword r = k then r\<lparr>count := sql_add_one (count r)\<rparr> else r)
                        (search_count d);
          rowcount = length matching
      in if list_ex (\<lambda>r. refuses d (r\<lparr>count := sql_add_one (count r)\<rparr>)) matching
         then Inl DatabaseError
         else if rowcount = 0
         then (if refuses d \<lparr>keyword = k, count = Integer 1\<rparr>
               then Inl DatabaseError
               else Inr (d\<lparr>search_count := updated @ [\<lparr>keyword = k, count = Integer 1\<rparr>]\<rparr>))
         else Inr (d\<lparr>search_count := updated\<rparr>))"

text \<open>
  \<open>INSERT OR REPLACE\<close> into \<open>melon_chart_data\<close>: the rank is bound first; the rows that
  conflict with the new one on \<open>UNIQUE(ranking)\<close> are deleted, then the new row is added
  with a fresh rowid.
\<close>

definition insert_or_replace ::
  "(db \<Rightarrow> chart_entry \<Rightarrow> bool) \<Rightarrow> db \<Rightarrow> chart_entry \<Rightarrow> py_error + db" where
  "insert_or_replace refuses d item =
     (if \<not> int64 (rank item) then Inl OverflowError
      else if refuses d item then Inl DatabaseError
      else Inr (d\<lparr>melon_chart_data :=
                  filter (\<lambda>r. rank r \<noteq> rank item) (melon_chart_data d) @ [item]\<rparr>))"

text \<open>The loop of \<open>save_melon_chart_to_db\<close>: the first exception ends it.\<close>

fun insert_all ::
  "(db \<Rightarrow> chart_entry \<Rightarrow> bool) \<Rightarrow> db \<Rightarrow> chart_entry list \<Rightarrow> py_error + db" where
  "insert_all refuses d [] = Inr d"
| "insert_all refuses d (item # items) =
     (case insert_or_replace refuses d item of
        Inl e \<Rightarrow> Inl e
      | Inr d' \<Rightarrow> insert_all refuses d' items)"

text \<open>\<open>save_melon_chart_to_db\<close>: DELETE every row, then one INSERT OR REPLACE per item.\<close>

definition save_melon_chart_to_db ::
  "(db \<Rightarrow> chart_entry \<Rightarrow> bool) \<Rightarrow> db \<Rightarrow> chart_entry list \<Rightarrow> py_error + db" where
  "save_melon_chart_to_db refuses d chart_data =
     insert_all refuses (d\<lparr>melon_chart_data := []\<rparr>) chart_data"

text \<open>
  The query of \<open>/melon-chart\<close>: every row, \<open>ORDER BY ranking ASC\<close>. (Rows of equal
  ranking, which the UNIQUE constraint excludes, are kept in rowid order.)
\<close>

definition melon_chart :: "db \<Rightarrow> chart_entry list" where
  "melon_chart d = sort_key rank (melon_chart_data d)"

section \<open>Scraping the chart\<close>

text \<open>
  \<open>str.isdigit\<close> holds of a non-empty text whose characters all have the Unicode
  property Numeric_Type=Decimal or Numeric_Type=Digit. The decimal digits come in
  runs of ten, zero first, and \<open>decimal_zeros\<close> lists the zero of each run; the other
  digits (superscripts, subscripts, circled digits and the like) are the ranges of
  \<open>other_digits\<close>. (Unicode 14.0.0, the tables of CPython 3.11.)
\<close>

definition decimal_zeros :: "nat list" where
  "decimal_zeros = [48, 1632, 1776, 1984, 2406, 2534, 2662, 2790, 2918, 3046, 3174, 3302,
     3430, 3558, 3664, 3792, 3872, 4160, 4240, 6112, 6160, 6470, 6608, 6784, 6800, 6992,
     7088, 7232, 7248, 42528, 43216, 43264, 43472, 43504, 43600, 44016, 65296, 66720,
     68912, 69734, 69872, 69942, 70096, 70384, 70736, 70864, 71248, 71360, 71472, 71904,
     72016, 72784, 73040, 73120, 92768, 92864, 93008, 120782, 120792, 120802, 120812,
     120822, 123200, 123632, 125264, 130032]"

definition other_digits :: "(nat \<times> nat) list" where
  "other_digits = [(178, 179), (185, 185), (4969, 4977), (6618, 6618), (8304, 8304),
     (8308, 8313), (8320, 8329), (9312, 9320), (9332, 9340), (9352, 9360), (9450, 9450),
     (9461, 9469), (9471, 9471), (10102, 10110), (10112, 10120), (10122, 10130),
     (68160, 68163), (69216, 69224), (69714, 69722), (127232, 127242)]"

text \<open>The value of a decimal digit, \<open>None\<close> for any other character.\<close>

definition py_decimal :: "nat \<Rightarrow> nat option" where
  "py_decimal c = map_option (\<lambda>z. c - z) (find (\<lambda>z. z \<le> c \<and> c \<le> z + 9) decimal_zeros)"

definition py_isdigit_char :: "nat \<Rightarrow> bool" where
  "py_isdigit_char c =
     (py_decimal c \<noteq> None \<or> list_ex (\<lambda>(lo, hi). lo \<le> c \<and> c \<le> hi) other_digits)"

definition py_isdigit :: "pystr \<Rightarrow> bool" where
  "py_isdigit s = (s \<noteq> [] \<and> list_all py_isdigit_char s)"

text \<open>
  \<open>int(rank)\<close> is reached only when \<open>rank.isdigit()\<close> holds. On such a text \<open>int\<close>
  raises ValueError when the text has more than 4300 characters (CPython's default
  limit on the digits of a decimal literal); otherwise it reads the decimal digits (of
  any script) in base ten, and raises ValueError at a character that is a digit without
  being a decimal digit.
\<close>

fun decimal_value :: "pystr \<Rightarrow> int \<Rightarrow> py_error + int" where
  "decimal_value [] n = Inr n"
| "decimal_value (c # cs) n =
     (case py_decimal c of
        None \<Rightarrow> Inl ValueError
      | Some v \<Rightarrow> decimal_value cs (10 * n + int v))"

definition py_int :: "pystr \<Rightarrow> py_error + int" where
  "py_int s = (if s = [] \<or> 4300 < length s then Inl ValueError else decimal_value s 0)"

text \<open>
  What the loop reads of one row of the page (an element of
  \<open>soup.select(".lst50, .lst100")\<close>): the \<open>.text\<close> of the element that each of the three
  \<open>select_one\<close> calls finds, \<open>None\<close> when it finds none.
\<close>

record chart_row =
  rank_el :: "pystr option"
  title_el :: "pystr option"
  artist_el :: "pystr option"

text \<open>
  The placeholders of the source, code point by code point:
  U+C81C U+BAA9 U+0020 U+C5C6 U+C74C for a missing title and
  U+C544 U+D2F0 U+C2A4 U+D2B8 U+0020 U+C5C6 U+C74C for a missing artist.
\<close>

definition no_title :: pystr where
  "no_title = [51228, 47785, 32, 50630, 51020]"

definition no_artist :: pystr where
  "no_artist = [50500, 54000, 49828, 53944, 32, 50630, 51020]"

text \<open>
  The body of the loop on one row: \<open>Inr None\<close> when the row adds nothing to the chart,
  \<open>Inr (Some item)\<close> when it adds an item, \<open>Inl\<close> when \<open>int\<close> raises.
\<close>

definition row_entry :: "chart_row \<Rightarrow> py_error + chart_entry option" where
  "row_entry row =
     (let rank_text = (case rank_el row of Some t \<Rightarrow> py_strip t | None \<Rightarrow> []);
          title_text = (case title_el row of Some t \<Rightarrow> py_strip t | None \<Rightarrow> no_title);
          artist_text = (case artist_el row of Some t \<Rightarrow> py_strip t | None \<Rightarrow> no_artist)
      in if py_isdigit rank_text
         then (case py_int rank_text of
                 Inl e \<Rightarrow> Inl e
               | Inr n \<Rightarrow> Inr (Some \<lparr>rank = n, title = title_text, artist = artist_text\<rparr>))
         else Inr None)"

text \<open>The loop: \<open>chart\<close> grows at its end; an exception leaves the loop.\<close>

fun parse_rows :: "chart_row list \<Rightarrow> chart_entry list \<Rightarrow> py_error + chart_entry list" where
  "parse_rows [] chart = Inr chart"
| "parse_rows (row # rows) chart =
     (case row_entry row of
        Inl e \<Rightarrow> Inl e
      | Inr None \<Rightarrow> parse_rows rows chart
      | Inr (Some item) \<Rightarrow> parse_rows rows (chart @ [item]))"

text \<open>
  What the outside world gives \<open>fetch_melon_chart\<close>: \<open>requests.get\<close> raises (network
  error, timeout), or returns a response with a status code; building the soup of its
  text and selecting the rows raises, or yields the rows.
\<close>

datatype melon_page = Parse_raised | Parsed "chart_row list"

datatype melon_get = Melon_raised | Melon_response int melon_page

text \<open>\<open>fetch_melon_chart\<close>: every exception inside \<open>try\<close> ends in \<open>return []\<close>.\<close>

definition fetch_melon_chart :: "melon_get \<Rightarrow> chart_entry list" where
  "fetch_melon_chart got =
     (case got of
        Melon_raised \<Rightarrow> []
      | Melon_response status_code page \<Rightarrow>
          if status_code \<noteq> 200 then []
          else (case page of
                  Parse_raised \<Rightarrow> []
                | Parsed rows \<Rightarrow>
                    (case parse_rows rows [] of Inl e \<Rightarrow> [] | Inr chart \<Rightarrow> chart)))"

section \<open>The blog search\<close>

text \<open>
  The module constants: \<open>os.getenv(name, "").strip()\<close>, where the environment has the
  variable (\<open>Some\<close>) or not.
\<close>

definition getenv_stripped :: "pystr option \<Rightarrow> pystr" where
  "getenv_stripped v = py_strip (case v of None \<Rightarrow> [] | Some s \<Rightarrow> s)"

text \<open>
  The request of \<open>search_naver_blog\<close>, by the values that its URL and headers are built
  from, and what \<open>requests.get\<close> does with it: it raises (with the text of the
  exception), or returns a response with a status code and a body, on which
  \<open>r.json().get("items", [])\<close> raises, or finds the items, or finds no such key.
\<close>

record blog_request =
  request_query :: pystr
  request_display :: int
  request_sort :: pystr
  request_client_id :: pystr
  request_client_secret :: pystr

datatype 'i blog_json = Json_raised pystr | Json_items "'i list option"

datatype 'i blog_get = Blog_raised pystr | Blog_response int "'i blog_json"

record 'i blog_result =
  items :: "'i list"
  error :: "pystr option"

text \<open>\<open>str\<close> of an integer: its decimal digits, after a minus sign when it is negative.\<close>

fun nat_digits :: "nat \<Rightarrow> pystr" where
  "nat_digits n = (if n < 10 then [48 + n] else nat_digits (n div 10) @ [48 + n mod 10])"

declare nat_digits.simps [simp del]

definition py_str :: "int \<Rightarrow> pystr" where
  "py_str i = (if i < 0 then 45 # nat_digits (nat (- i)) else nat_digits (nat i))"

text \<open>
  The three messages of the source: that the API keys are missing (32 characters,
  from U+004E U+0041 U+0056 U+0045 U+0052 to the final full stop), the prefix of an
  API error (U+B124 U+C774 U+BC84, " API ", U+C624 U+B958, ": ") and the prefix of a
  failed request (U+C694 U+CCAD, " ", U+C2E4 U+D328, ": ").
\<close>

definition no_key_message :: pystr where
  "no_key_message = [78, 65, 86, 69, 82, 32, 65, 80, 73, 32, 53412, 44032, 32, 50630,
     49845, 45768, 45796, 46, 32, 54872, 44221, 48320, 49688, 47196, 32, 49444, 51221,
     54644, 51452, 49464, 50836, 46]"

definition api_error_prefix :: pystr where
  "api_error_prefix = [45348, 51060, 48260, 32, 65, 80, 73, 32, 50724, 47448, 58, 32]"

definition request_failed_prefix :: pystr where
  "request_failed_prefix = [50836, 52397, 32, 49892, 54056, 58, 32]"

section \<open>Calls\<close>

text \<open>
  A handler is modelled with the list of the calls it makes to its collaborators, in
  order: the scraper, the replacement of the snapshot, a SELECT with a LIKE pattern,
  a request to the search API.
\<close>

datatype call =
    Fetch_melon_chart
  | Save_melon_chart_to_db "chart_entry list"
  | Select_artist_like pystr
  | Requests_get blog_request

text \<open>
  \<open>search_naver_blog\<close>, given the two module constants and the network: the result,
  and the requests sent.
\<close>

definition search_naver_blog ::
  "pystr \<Rightarrow> pystr \<Rightarrow> (blog_request \<Rightarrow> 'i blog_get) \<Rightarrow> pystr \<Rightarrow> int \<Rightarrow> pystr
     \<Rightarrow> 'i blog_result \<times> call list" where
  "search_naver_blog naver_client_id naver_client_secret requests_get query display sort_mode =
     (if naver_client_id = [] \<or> naver_client_secret = []
      then (\<lparr>items = [], error = Some no_key_message\<rparr>, [])
      else
        (let req = \<lparr>request_query = query, request_display = display, request_sort = sort_mode,
                    request_client_id = naver_client_id,
                    request_client_secret = naver_client_secret\<rparr>
         in (case requests_get req of
               Blog_raised e \<Rightarrow> \<lparr>items = [], error = Some (request_failed_prefix @ e)\<rparr>
             | Blog_response status_code body \<Rightarrow>
                 if status_code = 200
                 then (case body of
                         Json_raised e \<Rightarrow>
                           \<lparr>items = [], error = Some (request_failed_prefix @ e)\<rparr>
                       | Json_items found \<Rightarrow>
                           \<lparr>items = (case found of None \<Rightarrow> [] | Some its \<Rightarrow> its),
                            error = None\<rparr>)
                 else \<lparr>items = [], error = Some (api_error_prefix @ py_str status_code)\<rparr>,
             [Requests_get req])))"

section \<open>The handlers of the chart\<close>

text \<open>
  \<open>/update-chart-db\<close>: the store after the request, the calls made, and the exception
  that the handler lets through, if any (otherwise it redirects to \<open>melon_chart\<close>).
\<close>

definition update_chart_db ::
  "(db \<Rightarrow> chart_entry \<Rightarrow> bool) \<Rightarrow> db \<Rightarrow> melon_get \<Rightarrow> db \<times> call list \<times> py_error option" where
  "update_chart_db refuses d got =
     (let data = fetch_melon_chart got
      in if data \<noteq> []
         then (case save_melon_chart_to_db refuses d data of
                 Inl e \<Rightarrow> (d, [Fetch_melon_chart, Save_melon_chart_to_db data], Some e)
               | Inr d' \<Rightarrow> (d', [Fetch_melon_chart, Save_melon_chart_to_db data], None))
         else (d, [Fetch_melon_chart], None))"

text \<open>
  \<open>get_artist_count_ranking\<close>. The limit is bound as an INTEGER. GROUP BY with
  COUNT(*): one group per artist, made as the rows are read. ORDER BY song_count DESC,
  artist ASC: the groups sorted by the pair of the negated count and the artist. LIMIT:
  SQLite puts no bound on the number of rows when the limit is negative.
\<close>

fun count_artist :: "pystr \<Rightarrow> (pystr \<times> int) list \<Rightarrow> (pystr \<times> int) list" where
  "count_artist a [] = [(a, 1)]"
| "count_artist a ((b, n) # groups) =
     (if a = b then (b, n + 1) # groups else (b, n) # count_artist a groups)"

definition group_by_artist :: "chart_entry list \<Rightarrow> (pystr \<times> int) list" where
  "group_by_artist rows = foldl (\<lambda>groups r. count_artist (artist r) groups) [] rows"

definition sql_limit :: "int \<Rightarrow> 'a list \<Rightarrow> 'a list" where
  "sql_limit n rows = (if n < 0 then rows else take (nat n) rows)"

definition get_artist_count_ranking :: "db \<Rightarrow> int \<Rightarrow> py_error + (pystr \<times> int) list" where
  "get_artist_count_ranking d limit =
     (if \<not> int64 limit then Inl OverflowError
      else Inr (sql_limit limit
             (sort_key (\<lambda>(a, song_count). (- song_count, a))
                (group_by_artist (melon_chart_data d)))))"

text \<open>
  LIKE as SQLite evaluates it by default (no ESCAPE clause, \<open>case_sensitive_like\<close>
  off, no ICU). It reads the pattern and the text as C strings, so up to the first
  U+0000, and it reads U+FFFE and U+FFFF as U+FFFD: \<open>sql_cstring\<close> is what it reads of
  a text. In the pattern \<open>%\<close> (37) stands for any run of characters and \<open>_\<close> (95) for
  any one character; any other character stands for itself, the letters A to Z and a
  to z without regard to case.
\<close>

definition sql_char :: "nat \<Rightarrow> nat" where
  "sql_char c = (if c = 65534 \<or> c = 65535 then 65533 else c)"

definition sql_cstring :: "pystr \<Rightarrow> pystr" where
  "sql_cstring s = map sql_char (takeWhile (\<lambda>c. c \<noteq> 0) s)"

definition sql_lower :: "nat \<Rightarrow> nat" where
  "sql_lower c = (if 65 \<le> c \<and> c \<le> 90 then c + 32 else c)"

fun sql_like :: "pystr \<Rightarrow> pystr \<Rightarrow> bool" where
  "sql_like [] s = (s = [])"
| "sql_like (p # ps) [] = (p = 37 \<and> sql_like ps [])"
| "sql_like (p # ps) (c # cs) =
     (if p = 37 then sql_like ps (c # cs) \<or> sql_like (p # ps) cs
      else (p = 95 \<or> sql_lower p = sql_lower c) \<and> sql_like ps cs)"

text \<open>
  The SELECT of \<open>/artist-search\<close>: \<open>WHERE artist LIKE ? ORDER BY ranking ASC\<close>. The
  binding of a pattern of more than 10^9 bytes raises DataError; LIKE raises
  OperationalError on a pattern of more than 50000 bytes, at the first row that it is
  evaluated on.
\<close>

definition select_artist_like :: "db \<Rightarrow> pystr \<Rightarrow> py_error + chart_entry list" where
  "select_artist_like d pattern =
     (if 1000000000 < utf8_length pattern then Inl DataError
      else if melon_chart_data d \<noteq> [] \<and> 50000 < utf8_length pattern then Inl OperationalError
      else Inr (sort_key rank
             (filter (\<lambda>r. sql_like (sql_cstring pattern) (sql_cstring (artist r)))
                (melon_chart_data d))))"

text \<open>
  \<open>/artist-search\<close>, given the store and the request's \<open>artist_query\<close> argument: the
  trimmed query and the results that the template gets, or the exception that the
  handler lets through, and the calls made.
\<close>

definition artist_search ::
  "db \<Rightarrow> pystr option \<Rightarrow> (py_error + pystr \<times> chart_entry list) \<times> call list" where
  "artist_search d artist_query =
     (let query = py_strip (case artist_query of None \<Rightarrow> [] | Some s \<Rightarrow> s)
      in if query \<noteq> []
         then (case select_artist_like d (37 # query @ [37]) of
                 Inl e \<Rightarrow> (Inl e, [Select_artist_like (37 # query @ [37])])
               | Inr results \<Rightarrow> (Inr (query, results), [Select_artist_like (37 # query @ [37])]))
         else (Inr (query, []), []))"

section \<open>Properties of the snapshot\<close>

text \<open>The items that survive the inserts: of several items of one rank, the last.\<close>

fun keep_last :: "chart_entry list \<Rightarrow> chart_entry list" where
  "keep_last [] = []"
| "keep_last (e # es) = (if rank e \<in> rank ` set es then keep_last es else e # keep_last es)"

lemma insert_or_replace_Inr:
  assumes "insert_or_replace refuses d e = Inr d'"
  shows "melon_chart_data d' = filter (\<lambda>r. rank r \<noteq> rank e) (melon_chart_data d) @ [e]"
    and "search_count d' = search_count d"
  using assms by (auto simp: insert_or_replace_def split: if_splits)

lemma insert_or_replace_accepted:
  assumes "int64 (rank e)" and "\<not> refuses d e"
  shows "insert_or_replace refuses d e =
           Inr (d\<lparr>melon_chart_data :=
                   filter (\<lambda>r. rank r \<noteq> rank e) (melon_chart_data d) @ [e]\<rparr>)"
  using assms by (simp add: insert_or_replace_def)

lemma filter_rank_twice:
  "filter (\<lambda>r. rank r \<notin> rank ` set es) (filter (\<lambda>r. rank r \<noteq> rank e) rows)
     = filter (\<lambda>r. rank r \<notin> rank ` set (e # es)) rows"
  by (induction rows) auto

lemma insert_all_Inr:
  assumes "insert_all refuses d chart = Inr d'"
  shows "melon_chart_data d' =
           filter (\<lambda>r. rank r \<notin> rank ` set chart) (melon_chart_data d) @ keep_last chart
         \<and> search_count d' = search_count d"
  using assms
proof (induction chart arbitrary: d)
  case Nil
  then show ?case by simp
next
  case (Cons e es)
  show ?case
  proof (cases "insert_or_replace refuses d e")
    case (Inl x)
    with Cons.prems show ?thesis by simp
  next
    case (Inr d1)
    with Cons.prems have rest: "insert_all refuses d1 es = Inr d'" by simp
    note step = insert_or_replace_Inr [OF Inr]
    from Cons.IH [OF rest] show ?thesis
      by (simp add: step filter_rank_twice)
  qed
qed

lemma insert_all_succeeds:
  assumes "\<forall>item \<in> set chart. int64 (rank item)"
    and "\<forall>s. \<forall>item \<in> set chart. \<not> refuses s item"
  shows "\<exists>d'. insert_all refuses d chart = Inr d'"
  using assms
proof (induction chart arbitrary: d)
  case Nil
  show ?case by simp
next
  case (Cons e es)
  then have "int64 (rank e)" and "\<not> refuses d e" by simp_all
  then have "insert_or_replace refuses d e =
           Inr (d\<lparr>melon_chart_data :=
                   filter (\<lambda>r. rank r \<noteq> rank e) (melon_chart_data d) @ [e]\<rparr>)"
    by (rule insert_or_replace_accepted)
  moreover from Cons have "\<exists>d'. insert_all refuses
      (d\<lparr>melon_chart_data := filter (\<lambda>r. rank r \<noteq> rank e) (melon_chart_data d) @ [e]\<rparr>) es = Inr d'"
    by simp
  ultimately show ?case by simp
qed

lemma insert_all_fails:
  assumes "\<exists>item \<in> set chart. \<not> int64 (rank item)"
  shows "\<exists>e. insert_all refuses d chart = Inl e"
  using assms
proof (induction chart arbitrary: d)
  case Nil
  then show ?case by simp
next
  case (Cons x xs)
  show ?case
  proof (cases "insert_or_replace refuses d x")
    case (Inl e)
    then show ?thesis by simp
  next
    case (Inr d1)
    then have "int64 (rank x)"
      by (auto simp: insert_or_replace_def split: if_splits)
    with Cons.prems have "\<exists>item \<in> set xs. \<not> int64 (rank item)" by auto
    from Cons.IH [OF this, of d1] Inr show ?thesis by simp
  qed
qed

lemma save_Inr:
  assumes "save_melon_chart_to_db refuses d chart = Inr d'"
  shows "melon_chart_data d' = keep_last chart" and "search_count d' = search_count d"
  using insert_all_Inr [of refuses "d\<lparr>melon_chart_data := []\<rparr>" chart d'] assms
  by (simp_all add: save_melon_chart_to_db_def)

lemma save_succeeds:
  assumes "\<forall>item \<in> set chart. int64 (rank item)"
    and "\<forall>s. \<forall>item \<in> set chart. \<not> refuses s item"
  shows "\<exists>d'. save_melon_chart_to_db refuses d chart = Inr d'"
  unfolding save_melon_chart_to_db_def using assms by (rule insert_all_succeeds)

lemma save_fails:
  assumes "\<exists>item \<in> set chart. \<not> int64 (rank item)"
  shows "\<exists>e. save_melon_chart_to_db refuses d chart = Inl e"
  unfolding save_melon_chart_to_db_def using assms by (rule insert_all_fails)

lemma keep_last_distinct:
  "distinct (map rank chart) \<Longrightarrow> keep_last chart = chart"
  by (induction chart) auto

lemma set_keep_last_subset: "set (keep_last chart) \<subseteq> set chart"
  by (induction chart) auto

lemma distinct_keep_last: "distinct (map rank (keep_last chart))"
proof (induction chart)
  case Nil
  show ?case by simp
next
  case (Cons e es)
  have "rank e \<notin> rank ` set es \<Longrightarrow> rank e \<notin> rank ` set (keep_last es)"
    using set_keep_last_subset [of es] by auto
  with Cons show ?case by simp
qed

lemma keep_last_iff:
  "e \<in> set (keep_last chart) \<longleftrightarrow>
     (\<exists>pre post. chart = pre @ e # post \<and> rank e \<notin> rank ` set post)"
proof (induction chart)
  case Nil
  show ?case by simp
next
  case (Cons x xs)
  show ?case
  proof
    assume m: "e \<in> set (keep_last (x # xs))"
    show "\<exists>pre post. x # xs = pre @ e # post \<and> rank e \<notin> rank ` set post"
    proof (cases "e \<in> set (keep_last xs)")
      case True
      with Cons obtain pre post where "xs = pre @ e # post" "rank e \<notin> rank ` set post"
        by blast
      then have "x # xs = (x # pre) @ e # post \<and> rank e \<notin> rank ` set post" by simp
      then show ?thesis by blast
    next
      case False
      with m have "e = x" "rank x \<notin> rank ` set xs"
        by (auto split: if_splits)
      then have "x # xs = [] @ e # xs \<and> rank e \<notin> rank ` set xs" by simp
      then show ?thesis by blast
    qed
  next
    assume "\<exists>pre post. x # xs = pre @ e # post \<and> rank e \<notin> rank ` set post"
    then obtain pre post where p: "x # xs = pre @ e # post" "rank e \<notin> rank ` set post"
      by blast
    show "e \<in> set (keep_last (x # xs))"
    proof (cases pre)
      case Nil
      with p show ?thesis by simp
    next
      case (Cons y ys)
      with p have "xs = ys @ e # post" by simp
      with p Cons.IH have "e \<in> set (keep_last xs)" by blast
      then show ?thesis by simp
    qed
  qed
qed

text \<open>
  C1. For every store and every sequence of chart items of pairwise distinct ranks, all
  within the signed 64-bit range, when the engine refuses none of the inserts:
  \<open>save_melon_chart_to_db\<close> returns, and the query of \<open>/melon-chart\<close> then returns exactly
  the given items in ascending order of rank: nothing of the earlier snapshot is left,
  whatever it was.
\<close>

theorem save_then_melon_chart:
  assumes "distinct (map rank chart)"
    and "\<forall>item \<in> set chart. int64 (rank item)"
    and "\<forall>s. \<forall>item \<in> set chart. \<not> refuses s item"
  shows "\<exists>d'. save_melon_chart_to_db refuses d chart = Inr d'
           \<and> melon_chart d' = sort_key rank chart
           \<and> sorted (map rank (melon_chart d'))
           \<and> set (melon_chart d') = set chart
           \<and> length (melon_chart d') = length chart"
proof -
  from save_succeeds [OF assms(2,3)] obtain d'
    where saved: "save_melon_chart_to_db refuses d chart = Inr d'"
    by blast
  from save_Inr(1) [OF saved] assms(1) have "melon_chart_data d' = chart"
    by (simp add: keep_last_distinct)
  then have "melon_chart d' = sort_key rank chart
           \<and> sorted (map rank (melon_chart d'))
           \<and> set (melon_chart d') = set chart
           \<and> length (melon_chart d') = length chart"
    by (simp add: melon_chart_def)
  with saved show ?thesis by blast
qed

theorem save_then_melon_chart_witness:
  "distinct (map rank [\<lparr>rank = 2, title = [66], artist = [89]\<rparr>, \<lparr>rank = 1, title = [65], artist = [88]\<rparr>])
   \<and> int64 2 \<and> int64 1
   \<and> save_melon_chart_to_db (\<lambda>s item. False)
        \<lparr>search_count = [], melon_chart_data = [\<lparr>rank = 7, title = [67], artist = [90]\<rparr>]\<rparr>
        [\<lparr>rank = 2, title = [66], artist = [89]\<rparr>, \<lparr>rank = 1, title = [65], artist = [88]\<rparr>]
     = Inr \<lparr>search_count = [],
            melon_chart_data = [\<lparr>rank = 2, title = [66], artist = [89]\<rparr>,
                                \<lparr>rank = 1, title = [65], artist = [88]\<rparr>]\<rparr>
   \<and> melon_chart \<lparr>search_count = [],
            melon_chart_data = [\<lparr>rank = 2, title = [66], artist = [89]\<rparr>,
                                \<lparr>rank = 1, title = [65], artist = [88]\<rparr>]\<rparr>
     = [\<lparr>rank = 1, title = [65], artist = [88]\<rparr>, \<lparr>rank = 2, title = [66], artist = [89]\<rparr>]"
proof -
  let ?chart = "[\<lparr>rank = 2, title = [66], artist = [89]\<rparr>, \<lparr>rank = 1, title = [65], artist = [88]\<rparr>]"
  let ?d = "\<lparr>search_count = [], melon_chart_data = [\<lparr>rank = 7, title = [67], artist = [90]\<rparr>]\<rparr>"
  have h1: "distinct (map rank ?chart)" by simp
  have h2: "\<forall>item \<in> set ?chart. int64 (rank item)" by (simp add: int64_def)
  have h3: "\<forall>s. \<forall>item \<in> set ?chart. \<not> (\<lambda>s item. False) s item" by simp
  from save_then_melon_chart [OF h1 h2 h3, of ?d] obtain d'
    where "save_melon_chart_to_db (\<lambda>s item. False) ?d ?chart = Inr d'"
      and "melon_chart d' = sort_key rank ?chart"
    by blast
  moreover have "save_melon_chart_to_db (\<lambda>s item. False) ?d ?chart
     = Inr \<lparr>search_count = [], melon_chart_data = ?chart\<rparr>"
    by (simp add: save_melon_chart_to_db_def insert_or_replace_def int64_def)
  ultimately have "melon_chart \<lparr>search_count = [], melon_chart_data = ?chart\<rparr>
      = sort_key rank ?chart"
    by simp
  then show ?thesis
    using h1 by (simp add: int64_def save_melon_chart_to_db_def insert_or_replace_def)
qed

text \<open>
  C1 as stated, for every sequence of distinct ranks, fails at the ranks 1 and \<open>2^63\<close>
  (the scraper delivers such a rank from a rank text of 19 digits): the second INSERT
  raises OverflowError, nothing is committed, and \<open>/melon-chart\<close> still returns the row of
  the earlier snapshot and neither of the given items.
\<close>

theorem save_then_melon_chart_counterexample:
  "distinct (map rank [\<lparr>rank = 1, title = [65], artist = [88]\<rparr>,
                      \<lparr>rank = 9223372036854775808, title = [66], artist = [89]\<rparr>])
   \<and> save_melon_chart_to_db (\<lambda>s item. False)
        \<lparr>search_count = [], melon_chart_data = [\<lparr>rank = 7, title = [67], artist = [90]\<rparr>]\<rparr>
        [\<lparr>rank = 1, title = [65], artist = [88]\<rparr>,
         \<lparr>rank = 9223372036854775808, title = [66], artist = [89]\<rparr>]
     = Inl OverflowError
   \<and> melon_chart (store_after
        \<lparr>search_count = [], melon_chart_data = [\<lparr>rank = 7, title = [67], artist = [90]\<rparr>]\<rparr>
        (save_melon_chart_to_db (\<lambda>s item. False)
          \<lparr>search_count = [], melon_chart_data = [\<lparr>rank = 7, title = [67], artist = [90]\<rparr>]\<rparr>
          [\<lparr>rank = 1, title = [65], artist = [88]\<rparr>,
           \<lparr>rank = 9223372036854775808, title = [66], artist = [89]\<rparr>]))
     = [\<lparr>rank = 7, title = [67], artist = [90]\<rparr>]"
  by (simp add: save_melon_chart_to_db_def insert_or_replace_def int64_def store_after_def
        melon_chart_def)


lemma melon_chart_data_increment:
  "melon_chart_data (store_after d (increment_search_count refuses d k)) = melon_chart_data d"
  by (simp add: increment_search_count_def store_after_def Let_def)

lemma distinct_after_insert_or_replace:
  assumes "distinct (map rank (melon_chart_data d))"
  shows "distinct (map rank (melon_chart_data (store_after d (insert_or_replace refuses d e))))"
  using assms by (auto simp: insert_or_replace_def store_after_def distinct_map_filter)

lemma distinct_after_save:
  assumes "distinct (map rank (melon_chart_data d))"
  shows "distinct (map rank (melon_chart_data
           (store_after d (save_melon_chart_to_db refuses d chart))))"
proof (cases "save_melon_chart_to_db refuses d chart")
  case (Inl e)
  with assms show ?thesis by (simp add: store_after_def)
next
  case (Inr d')
  from save_Inr(1) [OF Inr] Inr show ?thesis
    by (simp add: store_after_def distinct_keep_last)
qed

lemma update_chart_db_store:
  "fst (update_chart_db refuses d got) = d
   \<or> fst (update_chart_db refuses d got)
       = store_after d (save_melon_chart_to_db refuses d (fetch_melon_chart got))"
  by (cases "save_melon_chart_to_db refuses d (fetch_melon_chart got)")
     (simp_all add: update_chart_db_def Let_def store_after_def)

lemma distinct_after_update_chart_db:
  assumes "distinct (map rank (melon_chart_data d))"
  shows "distinct (map rank (melon_chart_data (fst (update_chart_db refuses d got))))"
  using update_chart_db_store [of refuses d got] assms distinct_after_save [OF assms]
  by auto

text \<open>
  C10. After \<open>save_melon_chart_to_db\<close> the table has at most one row of each rank,
  whatever the items were and whether the call returns or raises. When every rank is
  within the signed 64-bit range and the engine refuses none of the inserts, the call
  returns and an item is stored exactly when no later item of the input has its rank.
  When some rank is outside that range the call raises and the table is as it was
  before the call. The statements that follow keep the ranks distinct: a single INSERT
  OR REPLACE, \<open>increment_search_count\<close> and the handler \<open>/update-chart-db\<close>.
\<close>

theorem rank_unique_in_store:
  "(distinct (map rank (melon_chart_data d)) \<longrightarrow>
      distinct (map rank (melon_chart_data
        (store_after d (save_melon_chart_to_db refuses d chart)))))
   \<and> ((\<forall>item \<in> set chart. int64 (rank item)) \<and> (\<forall>s. \<forall>item \<in> set chart. \<not> refuses s item) \<longrightarrow>
        (\<exists>d'. save_melon_chart_to_db refuses d chart = Inr d'
           \<and> distinct (map rank (melon_chart_data d'))
           \<and> (\<forall>e. e \<in> set (melon_chart_data d') \<longleftrightarrow>
                  (\<exists>pre post. chart = pre @ e # post \<and> rank e \<notin> rank ` set post))))
   \<and> ((\<exists>item \<in> set chart. \<not> int64 (rank item)) \<longrightarrow>
        (\<exists>e. save_melon_chart_to_db refuses d chart = Inl e)
        \<and> store_after d (save_melon_chart_to_db refuses d chart) = d)
   \<and> (distinct (map rank (melon_chart_data d)) \<longrightarrow>
        distinct (map rank (melon_chart_data (store_after d (insert_or_replace refuses d item))))
        \<and> distinct (map rank (melon_chart_data
             (store_after d (increment_search_count refuses' d k))))
        \<and> distinct (map rank (melon_chart_data (fst (update_chart_db refuses d got)))))"
proof (intro conjI impI)
  assume "distinct (map rank (melon_chart_data d))"
  then show "distinct (map rank (melon_chart_data
        (store_after d (save_melon_chart_to_db refuses d chart))))"
    by (rule distinct_after_save)
next
  assume a: "(\<forall>item \<in> set chart. int64 (rank item)) \<and> (\<forall>s. \<forall>item \<in> set chart. \<not> refuses s item)"
  then obtain d' where saved: "save_melon_chart_to_db refuses d chart = Inr d'"
    using save_succeeds [of chart refuses d] by blast
  note rows = save_Inr(1) [OF saved]
  have "distinct (map rank (melon_chart_data d'))"
    by (simp add: rows distinct_keep_last)
  moreover have "\<forall>e. e \<in> set (melon_chart_data d') \<longleftrightarrow>
                  (\<exists>pre post. chart = pre @ e # post \<and> rank e \<notin> rank ` set post)"
    by (simp only: rows keep_last_iff) simp
  ultimately show "\<exists>d'. save_melon_chart_to_db refuses d chart = Inr d'
           \<and> distinct (map rank (melon_chart_data d'))
           \<and> (\<forall>e. e \<in> set (melon_chart_data d') \<longleftrightarrow>
                  (\<exists>pre post. chart = pre @ e # post \<and> rank e \<notin> rank ` set post))"
    using saved by blast
next
  assume "\<exists>item \<in> set chart. \<not> int64 (rank item)"
  then show "\<exists>e. save_melon_chart_to_db refuses d chart = Inl e"
    by (rule save_fails)
next
  assume "\<exists>item \<in> set chart. \<not> int64 (rank item)"
  then obtain e where "save_melon_chart_to_db refuses d chart = Inl e"
    using save_fails [of chart refuses d] by blast
  then show "store_after d (save_melon_chart_to_db refuses d chart) = d"
    by (simp add: store_after_def)
next
  assume "distinct (map rank (melon_chart_data d))"
  then show "distinct (map rank (melon_chart_data
      (store_after d (insert_or_replace refuses d item))))"
    by (rule distinct_after_insert_or_replace)
next
  assume "distinct (map rank (melon_chart_data d))"
  then show "distinct (map rank (melon_chart_data
             (store_after d (increment_search_count refuses' d k))))"
    by (simp add: melon_chart_data_increment)
next
  assume "distinct (map rank (melon_chart_data d))"
  then show "distinct (map rank (melon_chart_data (fst (update_chart_db refuses d got))))"
    by (rule distinct_after_update_chart_db)
qed

theorem rank_unique_in_store_witness:
  "distinct (map rank (melon_chart_data
       \<lparr>search_count = [], melon_chart_data = [\<lparr>rank = 1, title = [67], artist = [90]\<rparr>]\<rparr>))
   \<and> int64 1 \<and> int64 2
   \<and> save_melon_chart_to_db (\<lambda>s item. False)
       \<lparr>search_count = [], melon_chart_data = [\<lparr>rank = 1, title = [67], artist = [90]\<rparr>]\<rparr>
       [\<lparr>rank = 1, title = [65], artist = [88]\<rparr>, \<lparr>rank = 2, title = [66], artist = [88]\<rparr>,
        \<lparr>rank = 1, title = [68], artist = [89]\<rparr>]
     = Inr \<lparr>search_count = [],
            melon_chart_data = [\<lparr>rank = 2, title = [66], artist = [88]\<rparr>,
                                \<lparr>rank = 1, title = [68], artist = [89]\<rparr>]\<rparr>
   \<and> distinct (map rank (melon_chart_data (store_after
         \<lparr>search_count = [], melon_chart_data = [\<lparr>rank = 1, title = [67], artist = [90]\<rparr>]\<rparr>
         (save_melon_chart_to_db (\<lambda>s item. False)
           \<lparr>search_count = [], melon_chart_data = [\<lparr>rank = 1, title = [67], artist = [90]\<rparr>]\<rparr>
           [\<lparr>rank = 1, title = [65], artist = [88]\<rparr>, \<lparr>rank = 2, title = [66], artist = [88]\<rparr>,
            \<lparr>rank = 1, title = [68], artist = [89]\<rparr>]))))
   \<and> distinct (map rank (melon_chart_data (fst (update_chart_db (\<lambda>s item. False)
         \<lparr>search_count = [], melon_chart_data = [\<lparr>rank = 1, title = [67], artist = [90]\<rparr>]\<rparr>
         Melon_raised))))
   \<and> (\<exists>d'. save_melon_chart_to_db (\<lambda>s item. False)
            \<lparr>search_count = [], melon_chart_data = [\<lparr>rank = 1, title = [67], artist = [90]\<rparr>]\<rparr>
            [\<lparr>rank = 1, title = [65], artist = [88]\<rparr>, \<lparr>rank = 2, title = [66], artist = [88]\<rparr>,
             \<lparr>rank = 1, title = [68], artist = [89]\<rparr>] = Inr d'
          \<and> distinct (map rank (melon_chart_data d'))
          \<and> (\<forall>e. e \<in> set (melon_chart_data d') \<longleftrightarrow>
                (\<exists>pre post.
                   [\<lparr>rank = 1, title = [65], artist = [88]\<rparr>, \<lparr>rank = 2, title = [66], artist = [88]\<rparr>,
                    \<lparr>rank = 1, title = [68], artist = [89]\<rparr>] = pre @ e # post
                   \<and> rank e \<notin> rank ` set post)))"
proof -
  let ?d = "\<lparr>search_count = [], melon_chart_data = [\<lparr>rank = 1, title = [67], artist = [90]\<rparr>]\<rparr>"
  let ?chart = "[\<lparr>rank = 1, title = [65], artist = [88]\<rparr>, \<lparr>rank = 2, title = [66], artist = [88]\<rparr>,
        \<lparr>rank = 1, title = [68], artist = [89]\<rparr>]"
  have inv: "distinct (map rank (melon_chart_data ?d))"
    by simp
  have range: "int64 1 \<and> int64 2"
    by (simp add: int64_def)
  have saved: "save_melon_chart_to_db (\<lambda>s item. False) ?d ?chart
     = Inr \<lparr>search_count = [],
            melon_chart_data = [\<lparr>rank = 2, title = [66], artist = [88]\<rparr>,
                                \<lparr>rank = 1, title = [68], artist = [89]\<rparr>]\<rparr>"
    by (simp add: save_melon_chart_to_db_def insert_or_replace_def int64_def)
  note t = rank_unique_in_store [of ?d "\<lambda>s item. False" ?chart
      "\<lparr>rank = 1, title = [65], artist = [88]\<rparr>" "\<lambda>s r. False" "[]" Melon_raised]
  from t [THEN conjunct1, THEN mp, OF inv]
  have a: "distinct (map rank (melon_chart_data
        (store_after ?d (save_melon_chart_to_db (\<lambda>s item. False) ?d ?chart))))" .
  from t [THEN conjunct2, THEN conjunct2, THEN conjunct2, THEN mp, OF inv]
  have b: "distinct (map rank (melon_chart_data
      (fst (update_chart_db (\<lambda>s item. False) ?d Melon_raised))))"
    by (elim conjE)
  have h: "(\<forall>item \<in> set ?chart. int64 (rank item))
      \<and> (\<forall>s. \<forall>item \<in> set ?chart. \<not> (\<lambda>s item. False) s item)"
    by (simp add: int64_def)
  note c = t [THEN conjunct2, THEN conjunct1, THEN mp, OF h]
  show ?thesis
    by (intro conjI inv range [THEN conjunct1] range [THEN conjunct2] saved a b c)
qed

text \<open>
  C10 as stated, with the last item of each rank retained after every call, fails at the
  items of ranks 1, 1 and \<open>2^63\<close>: the call raises at the third item, the table is as it
  was before, and the last item of rank 1 is not in it.
\<close>

theorem rank_unique_in_store_counterexample:
  "store_after
     \<lparr>search_count = [], melon_chart_data = [\<lparr>rank = 5, title = [67], artist = [90]\<rparr>]\<rparr>
     (save_melon_chart_to_db (\<lambda>s item. False)
       \<lparr>search_count = [], melon_chart_data = [\<lparr>rank = 5, title = [67], artist = [90]\<rparr>]\<rparr>
       [\<lparr>rank = 1, title = [65], artist = [88]\<rparr>,
        \<lparr>rank = 1, title = [66], artist = [89]\<rparr>,
        \<lparr>rank = 9223372036854775808, title = [68], artist = [89]\<rparr>])
     = \<lparr>search_count = [], melon_chart_data = [\<lparr>rank = 5, title = [67], artist = [90]\<rparr>]\<rparr>
   \<and> \<lparr>rank = 1, title = [66], artist = [89]\<rparr>
       \<notin> set (melon_chart_data
           \<lparr>search_count = [], melon_chart_data = [\<lparr>rank = 5, title = [67], artist = [90]\<rparr>]\<rparr>)"
  by (simp add: save_melon_chart_to_db_def insert_or_replace_def int64_def store_after_def)


section \<open>Counting searches\<close>

lemma increment_accepted:
  assumes "\<forall>s r. \<not> refuses s r"
  shows "increment_search_count refuses d k =
     Inr (d\<lparr>search_count :=
            map (\<lambda>r. if keyword r = k then r\<lparr>count := sql_add_one (count r)\<rparr> else r)
              (search_count d)
            @ (if k \<in> keyword ` set (search_count d) then []
               else [\<lparr>keyword = k, count = Integer 1\<rparr>])\<rparr>)"
proof -
  have none: "\<not> list_ex (\<lambda>r. refuses d (r\<lparr>count := sql_add_one (count r)\<rparr>))
        (filter (\<lambda>r. keyword r = k) (search_count d))"
    using assms by (simp add: list_ex_iff)
  have "filter (\<lambda>r. keyword r = k) (search_count d) = [] \<longleftrightarrow>
        k \<notin> keyword ` set (search_count d)"
    by (auto simp: filter_empty_conv)
  then show ?thesis
    using assms none by (simp add: increment_search_count_def Let_def)
qed

lemma bump_absent:
  assumes "k \<notin> keyword ` set rows"
  shows "map (\<lambda>r. if keyword r = k then r\<lparr>count := sql_add_one (count r)\<rparr> else r) rows = rows"
  using assms by (intro map_idI) auto

lemma bump_integers:
  assumes "\<forall>r \<in> set rows. keyword r = k \<longrightarrow> (\<exists>n. count r = Integer n \<and> n < 9223372036854775807)"
  shows "map (\<lambda>r. if keyword r = k then r\<lparr>count := sql_add_one (count r)\<rparr> else r) rows =
         map (\<lambda>r. if keyword r = k
                   then (case count r of Integer n \<Rightarrow> r\<lparr>count := Integer (n + 1)\<rparr> | Real_2_63 \<Rightarrow> r)
                   else r) rows"
  using assms by (intro map_cong refl) (auto simp: sql_add_one_def)

lemma search_count_repeated:
  assumes "\<forall>s r. \<not> refuses s r" and "k \<notin> keyword ` set (search_count d)"
  shows "search_count (((\<lambda>s. store_after s (increment_search_count refuses s k)) ^^ n) d) =
         search_count d @
           (if n = 0 then []
            else [\<lparr>keyword = k,
                   count = (if int n \<le> 9223372036854775807 then Integer (int n) else Real_2_63)\<rparr>])"
proof (induction n)
  case 0
  show ?case by simp
next
  case (Suc n)
  let ?s = "((\<lambda>s. store_after s (increment_search_count refuses s k)) ^^ n) d"
  note keep = bump_absent [OF assms(2)]
  show ?case
  proof (cases "n = 0")
    case True
    then show ?thesis
      using assms(2) by (simp add: increment_accepted [OF assms(1)] store_after_def keep)
  next
    case False
    with Suc have rows: "search_count ?s = search_count d @
        [\<lparr>keyword = k,
          count = (if int n \<le> 9223372036854775807 then Integer (int n) else Real_2_63)\<rparr>]"
      by simp
    then have present: "k \<in> keyword ` set (search_count ?s)" by simp
    have unfold: "((\<lambda>s. store_after s (increment_search_count refuses s k)) ^^ Suc n) d
        = store_after ?s (increment_search_count refuses ?s k)"
      by (simp only: funpow.simps o_apply)
    have step: "search_count (store_after ?s (increment_search_count refuses ?s k))
        = map (\<lambda>r. if keyword r = k then r\<lparr>count := sql_add_one (count r)\<rparr> else r)
            (search_count ?s)"
      using present by (simp add: increment_accepted [OF assms(1)] store_after_def)
    have "map (\<lambda>r. if keyword r = k then r\<lparr>count := sql_add_one (count r)\<rparr> else r)
            (search_count d @
              [\<lparr>keyword = k,
                count = (if int n \<le> 9223372036854775807 then Integer (int n) else Real_2_63)\<rparr>])
        = search_count d @
            [\<lparr>keyword = k,
              count = (if int (Suc n) \<le> 9223372036854775807
                       then Integer (int (Suc n)) else Real_2_63)\<rparr>]"
      by (simp add: keep sql_add_one_def)
    then show ?thesis
      by (simp only: unfold step rows) simp
  qed
qed

text \<open>
  C4. \<open>increment_search_count\<close> is an upsert, for every keyword and every store, when the
  engine refuses none of the writes: when the keyword has a row whose count is an
  integer below \<open>2^63 - 1\<close>, the count grows by one and no row is added; when it has none,
  a row with count 1 is added. So from a store with no row of the keyword, \<open>n\<close> calls
  in a row, \<open>n\<close> at most \<open>2^63 - 1\<close>, leave exactly one row of the keyword, with count
  \<open>n\<close> (none when \<open>n = 0\<close>), and the rows of the other keywords as they were. The chart
  is not touched.
\<close>

theorem increment_search_count_upsert:
  assumes "\<forall>s r. \<not> refuses s r"
  shows
  "(k \<in> keyword ` set (search_count d)
      \<and> (\<forall>r \<in> set (search_count d). keyword r = k \<longrightarrow>
           (\<exists>c. count r = Integer c \<and> c < 9223372036854775807)) \<longrightarrow>
      increment_search_count refuses d k =
        Inr (d\<lparr>search_count :=
               map (\<lambda>r. if keyword r = k
                         then (case count r of
                                 Integer c \<Rightarrow> r\<lparr>count := Integer (c + 1)\<rparr>
                               | Real_2_63 \<Rightarrow> r)
                         else r) (search_count d)\<rparr>))
   \<and> (k \<notin> keyword ` set (search_count d) \<longrightarrow>
      increment_search_count refuses d k =
        Inr (d\<lparr>search_count := search_count d @ [\<lparr>keyword = k, count = Integer 1\<rparr>]\<rparr>))
   \<and> (k \<notin> keyword ` set (search_count d) \<and> int n \<le> 9223372036854775807 \<longrightarrow>
      filter (\<lambda>r. keyword r = k)
        (search_count (((\<lambda>s. store_after s (increment_search_count refuses s k)) ^^ n) d)) =
        (if n = 0 then [] else [\<lparr>keyword = k, count = Integer (int n)\<rparr>])
      \<and> filter (\<lambda>r. keyword r \<noteq> k)
        (search_count (((\<lambda>s. store_after s (increment_search_count refuses s k)) ^^ n) d))
        = search_count d)
   \<and> melon_chart_data (store_after d (increment_search_count refuses d k)) = melon_chart_data d"
proof (intro conjI impI)
  assume a: "k \<in> keyword ` set (search_count d)
      \<and> (\<forall>r \<in> set (search_count d). keyword r = k \<longrightarrow>
           (\<exists>c. count r = Integer c \<and> c < 9223372036854775807))"
  then have "map (\<lambda>r. if keyword r = k then r\<lparr>count := sql_add_one (count r)\<rparr> else r)
        (search_count d) =
      map (\<lambda>r. if keyword r = k
                then (case count r of Integer c \<Rightarrow> r\<lparr>count := Integer (c + 1)\<rparr> | Real_2_63 \<Rightarrow> r)
                else r) (search_count d)"
    using bump_integers [of "search_count d" k] by blast
  with a show "increment_search_count refuses d k =
        Inr (d\<lparr>search_count :=
               map (\<lambda>r. if keyword r = k
                         then (case count r of
                                 Integer c \<Rightarrow> r\<lparr>count := Integer (c + 1)\<rparr>
                               | Real_2_63 \<Rightarrow> r)
                         else r) (search_count d)\<rparr>)"
    by (simp add: increment_accepted [OF assms])
next
  assume "k \<notin> keyword ` set (search_count d)"
  then show "increment_search_count refuses d k =
        Inr (d\<lparr>search_count := search_count d @ [\<lparr>keyword = k, count = Integer 1\<rparr>]\<rparr>)"
    by (simp add: increment_accepted [OF assms] bump_absent)
next
  assume a: "k \<notin> keyword ` set (search_count d) \<and> int n \<le> 9223372036854775807"
  then have none: "filter (\<lambda>r. keyword r = k) (search_count d) = []"
    by (auto simp: filter_empty_conv)
  from a show "filter (\<lambda>r. keyword r = k)
        (search_count (((\<lambda>s. store_after s (increment_search_count refuses s k)) ^^ n) d)) =
        (if n = 0 then [] else [\<lparr>keyword = k, count = Integer (int n)\<rparr>])"
    by (simp add: search_count_repeated [OF assms] none)
next
  assume a: "k \<notin> keyword ` set (search_count d) \<and> int n \<le> 9223372036854775807"
  then have all: "filter (\<lambda>r. keyword r \<noteq> k) (search_count d) = search_count d"
    by (auto simp: filter_id_conv)
  from a show "filter (\<lambda>r. keyword r \<noteq> k)
        (search_count (((\<lambda>s. store_after s (increment_search_count refuses s k)) ^^ n) d))
        = search_count d"
    by (simp add: search_count_repeated [OF assms] all)
next
  show "melon_chart_data (store_after d (increment_search_count refuses d k)) = melon_chart_data d"
    by (rule melon_chart_data_increment)
qed

theorem increment_search_count_upsert_witness:
  "(\<forall>s r. \<not> (\<lambda>s r. False) (s :: db) (r :: search_row))
   \<and> increment_search_count (\<lambda>s r. False)
       \<lparr>search_count = [\<lparr>keyword = [97], count = Integer 4\<rparr>, \<lparr>keyword = [98], count = Integer 1\<rparr>],
        melon_chart_data = []\<rparr> [97]
     = Inr \<lparr>search_count = [\<lparr>keyword = [97], count = Integer 5\<rparr>,
                             \<lparr>keyword = [98], count = Integer 1\<rparr>],
            melon_chart_data = []\<rparr>
   \<and> increment_search_count (\<lambda>s r. False)
       \<lparr>search_count = [\<lparr>keyword = [98], count = Integer 1\<rparr>], melon_chart_data = []\<rparr> [97]
     = Inr \<lparr>search_count = [\<lparr>keyword = [98], count = Integer 1\<rparr>,
                             \<lparr>keyword = [97], count = Integer 1\<rparr>],
            melon_chart_data = []\<rparr>
   \<and> filter (\<lambda>r. keyword r = [97])
       (search_count (((\<lambda>s. store_after s (increment_search_count (\<lambda>s r. False) s [97])) ^^ 3)
          \<lparr>search_count = [\<lparr>keyword = [98], count = Integer 1\<rparr>], melon_chart_data = []\<rparr>))
     = [\<lparr>keyword = [97], count = Integer 3\<rparr>]"
proof -
  let ?d1 = "\<lparr>search_count = [\<lparr>keyword = [97], count = Integer 4\<rparr>, \<lparr>keyword = [98], count = Integer 1\<rparr>],
        melon_chart_data = []\<rparr>"
  let ?d2 = "\<lparr>search_count = [\<lparr>keyword = [98], count = Integer 1\<rparr>], melon_chart_data = []\<rparr>"
  have h: "\<forall>s r. \<not> (\<lambda>s r. False) (s :: db) (r :: search_row)" by simp
  note t1 = increment_search_count_upsert [OF h, of "[97]" ?d1 0]
  note t2 = increment_search_count_upsert [OF h, of "[97]" ?d2 3]
  have p1: "[97] \<in> keyword ` set (search_count ?d1)
      \<and> (\<forall>r \<in> set (search_count ?d1). keyword r = [97] \<longrightarrow>
           (\<exists>c. count r = Integer c \<and> c < 9223372036854775807))"
    by simp
  have p2: "[97] \<notin> keyword ` set (search_count ?d2)" by simp
  have p3: "[97] \<notin> keyword ` set (search_count ?d2) \<and> int 3 \<le> 9223372036854775807" by simp
  from t1 [THEN conjunct1, THEN mp, OF p1]
  have a: "increment_search_count (\<lambda>s r. False) ?d1 [97]
     = Inr \<lparr>search_count = [\<lparr>keyword = [97], count = Integer 5\<rparr>,
                             \<lparr>keyword = [98], count = Integer 1\<rparr>],
            melon_chart_data = []\<rparr>"
    by simp
  from t2 [THEN conjunct2, THEN conjunct1, THEN mp, OF p2]
  have b: "increment_search_count (\<lambda>s r. False) ?d2 [97]
     = Inr \<lparr>search_count = [\<lparr>keyword = [98], count = Integer 1\<rparr>,
                             \<lparr>keyword = [97], count = Integer 1\<rparr>],
            melon_chart_data = []\<rparr>"
    by simp
  from t2 [THEN conjunct2, THEN conjunct2, THEN conjunct1, THEN mp, OF p3]
  have c: "filter (\<lambda>r. keyword r = [97])
       (search_count (((\<lambda>s. store_after s (increment_search_count (\<lambda>s r. False) s [97])) ^^ 3) ?d2))
     = [\<lparr>keyword = [97], count = Integer 3\<rparr>]"
    by simp
  show ?thesis
    by (intro conjI h a b c)
qed

text \<open>
  C4 as stated, for every store and every number of calls, fails at a row whose count is
  \<open>2^63 - 1\<close>: \<open>count + 1\<close> is then the floating-point number \<open>2^63\<close> (9.223372036854776e18),
  and it is this number again after every later call, so the increments are lost; and
  \<open>2^63\<close> calls from a store without the keyword leave this number, not an integer
  count.
\<close>

theorem increment_search_count_upsert_counterexample:
  "increment_search_count (\<lambda>s r. False)
       \<lparr>search_count = [\<lparr>keyword = [97], count = Integer 9223372036854775807\<rparr>],
        melon_chart_data = []\<rparr> [97]
     = Inr \<lparr>search_count = [\<lparr>keyword = [97], count = Real_2_63\<rparr>], melon_chart_data = []\<rparr>
   \<and> increment_search_count (\<lambda>s r. False)
       \<lparr>search_count = [\<lparr>keyword = [97], count = Real_2_63\<rparr>], melon_chart_data = []\<rparr> [97]
     = Inr \<lparr>search_count = [\<lparr>keyword = [97], count = Real_2_63\<rparr>], melon_chart_data = []\<rparr>
   \<and> Real_2_63 \<noteq> Integer (9223372036854775807 + 1)
   \<and> search_count (((\<lambda>s. store_after s (increment_search_count (\<lambda>s r. False) s [97]))
          ^^ 9223372036854775808) \<lparr>search_count = [], melon_chart_data = []\<rparr>)
     = [\<lparr>keyword = [97], count = Real_2_63\<rparr>]"
proof -
  have h: "\<forall>s r. \<not> (\<lambda>s r. False) (s :: db) (r :: search_row)" by simp
  have absent: "[97] \<notin> keyword ` set (search_count \<lparr>search_count = [], melon_chart_data = []\<rparr>)"
    by simp
  have many: "search_count (((\<lambda>s. store_after s (increment_search_count (\<lambda>s r. False) s [97]))
          ^^ 9223372036854775808) \<lparr>search_count = [], melon_chart_data = []\<rparr>)
     = [\<lparr>keyword = [97], count = Real_2_63\<rparr>]"
    unfolding search_count_repeated [OF h absent] by simp
  have one: "increment_search_count (\<lambda>s r. False)
       \<lparr>search_count = [\<lparr>keyword = [97], count = Integer 9223372036854775807\<rparr>],
        melon_chart_data = []\<rparr> [97]
     = Inr \<lparr>search_count = [\<lparr>keyword = [97], count = Real_2_63\<rparr>], melon_chart_data = []\<rparr>"
    by (simp add: increment_search_count_def sql_add_one_def)
  have two: "increment_search_count (\<lambda>s r. False)
       \<lparr>search_count = [\<lparr>keyword = [97], count = Real_2_63\<rparr>], melon_chart_data = []\<rparr> [97]
     = Inr \<lparr>search_count = [\<lparr>keyword = [97], count = Real_2_63\<rparr>], melon_chart_data = []\<rparr>"
    by (simp add: increment_search_count_def sql_add_one_def)
  show ?thesis
    by (intro conjI one two many) simp
qed


section \<open>Properties of the scraper\<close>

lemma parse_rows_raises:
  assumes "row \<in> set rows" and "row_entry row = Inl e"
  shows "\<exists>e'. parse_rows rows chart = Inl e'"
  using assms
proof (induction rows arbitrary: chart)
  case Nil
  then show ?case by simp
next
  case (Cons r rs)
  show ?case
  proof (cases "row_entry r")
    case (Inl x)
    then show ?thesis by simp
  next
    case (Inr found)
    with Cons.prems have "row \<in> set rs" by auto
    from Cons.IH [OF this Cons.prems(2)] Inr show ?thesis
      by (cases found) simp_all
  qed
qed

lemma parse_rows_items:
  assumes "parse_rows rows chart = Inr out" and "item \<in> set out"
  shows "item \<in> set chart \<or> (\<exists>row \<in> set rows. row_entry row = Inr (Some item))"
  using assms
proof (induction rows arbitrary: chart)
  case Nil
  then show ?case by simp
next
  case (Cons r rs)
  show ?case
  proof (cases "row_entry r")
    case (Inl x)
    with Cons.prems show ?thesis by simp
  next
    case (Inr found)
    show ?thesis
    proof (cases found)
      case None
      with Inr Cons.prems have "parse_rows rs chart = Inr out" by simp
      from Cons.IH [OF this Cons.prems(2)] show ?thesis by auto
    next
      case (Some new)
      with Inr Cons.prems have "parse_rows rs (chart @ [new]) = Inr out" by simp
      from Cons.IH [OF this Cons.prems(2)] Inr Some show ?thesis by auto
    qed
  qed
qed

lemma row_entry_fields:
  assumes "row_entry row = Inr (Some item)"
  shows "title item = (case title_el row of Some t \<Rightarrow> py_strip t | None \<Rightarrow> no_title)"
    and "artist item = (case artist_el row of Some t \<Rightarrow> py_strip t | None \<Rightarrow> no_artist)"
proof -
  from assms obtain n where
    "item = \<lparr>rank = n,
        title = (case title_el row of Some t \<Rightarrow> py_strip t | None \<Rightarrow> no_title),
        artist = (case artist_el row of Some t \<Rightarrow> py_strip t | None \<Rightarrow> no_artist)\<rparr>"
    by (cases "py_int (case rank_el row of Some t \<Rightarrow> py_strip t | None \<Rightarrow> [])")
       (auto simp: row_entry_def Let_def split: if_splits)
  then show "title item = (case title_el row of Some t \<Rightarrow> py_strip t | None \<Rightarrow> no_title)"
    and "artist item = (case artist_el row of Some t \<Rightarrow> py_strip t | None \<Rightarrow> no_artist)"
    by simp_all
qed

lemma row_entry_digit_one:
  "row_entry \<lparr>rank_el = Some [49], title_el = None, artist_el = None\<rparr> =
     Inr (Some \<lparr>rank = 1, title = [51228, 47785, 32, 50630, 51020],
                 artist = [50500, 54000, 49828, 53944, 32, 50630, 51020]\<rparr>)"
  by (simp add: row_entry_def py_strip_def py_isspace_def py_isdigit_def py_isdigit_char_def
        py_int_def py_decimal_def decimal_zeros_def no_title_def no_artist_def)

lemma row_entry_digit_three:
  "row_entry \<lparr>rank_el = Some [32, 51, 10], title_el = Some [32, 84, 51], artist_el = Some [89, 32]\<rparr> =
     Inr (Some \<lparr>rank = 3, title = [84, 51], artist = [89]\<rparr>)"
  by (simp add: row_entry_def py_strip_def py_isspace_def py_isdigit_def py_isdigit_char_def
        py_int_def py_decimal_def decimal_zeros_def)

lemma py_decimal_superscript_two: "py_decimal 178 = None"
  by (simp add: py_decimal_def decimal_zeros_def)

lemma py_isdigit_superscript_two: "py_isdigit [178]"
  by (simp add: py_isdigit_def py_isdigit_char_def other_digits_def)

lemma row_entry_superscript_two:
  "row_entry \<lparr>rank_el = Some [178], title_el = None, artist_el = None\<rparr> = Inl ValueError"
  by (simp add: row_entry_def py_strip_def py_isspace_def py_isdigit_superscript_two
        py_int_def py_decimal_superscript_two)

lemma row_entry_letter:
  "row_entry \<lparr>rank_el = Some [120], title_el = None, artist_el = None\<rparr> = Inr None"
  by (simp add: row_entry_def py_strip_def py_isspace_def py_isdigit_def py_isdigit_char_def
        py_decimal_def decimal_zeros_def other_digits_def)

text \<open>
  C7. Whatever goes wrong with the request for the chart, \<open>fetch_melon_chart\<close> returns
  the empty list (it has no other kind of result): when \<open>requests.get\<close> raises, when
  the status is not 200, when parsing raises, and when \<open>int\<close> raises at some row of the
  page, in which case the items of the rows before it are not returned either.
\<close>

theorem fetch_melon_chart_failure:
  "fetch_melon_chart Melon_raised = []
   \<and> (status_code \<noteq> 200 \<longrightarrow> fetch_melon_chart (Melon_response status_code page) = [])
   \<and> fetch_melon_chart (Melon_response status_code Parse_raised) = []
   \<and> (row \<in> set rows \<and> row_entry row = Inl e \<longrightarrow>
        fetch_melon_chart (Melon_response status_code (Parsed rows)) = [])"
proof (intro conjI impI)
  show "fetch_melon_chart Melon_raised = []"
    by (simp add: fetch_melon_chart_def)
next
  assume "status_code \<noteq> 200"
  then show "fetch_melon_chart (Melon_response status_code page) = []"
    by (simp add: fetch_melon_chart_def)
next
  show "fetch_melon_chart (Melon_response status_code Parse_raised) = []"
    by (simp add: fetch_melon_chart_def)
next
  assume "row \<in> set rows \<and> row_entry row = Inl e"
  then obtain e' where "parse_rows rows [] = Inl e'"
    using parse_rows_raises [of row rows e "[]"] by blast
  then show "fetch_melon_chart (Melon_response status_code (Parsed rows)) = []"
    by (simp add: fetch_melon_chart_def)
qed

theorem fetch_melon_chart_failure_witness:
  "fetch_melon_chart Melon_raised = []
   \<and> (404 :: int) \<noteq> 200
   \<and> fetch_melon_chart (Melon_response 404 (Parsed
        [\<lparr>rank_el = Some [49], title_el = None, artist_el = None\<rparr>])) = []
   \<and> fetch_melon_chart (Melon_response 200 Parse_raised) = []
   \<and> \<lparr>rank_el = Some [178], title_el = None, artist_el = None\<rparr>
        \<in> set [\<lparr>rank_el = Some [49], title_el = None, artist_el = None\<rparr>,
               \<lparr>rank_el = Some [178], title_el = None, artist_el = None\<rparr>]
   \<and> row_entry \<lparr>rank_el = Some [178], title_el = None, artist_el = None\<rparr> = Inl ValueError
   \<and> fetch_melon_chart (Melon_response 200 (Parsed
        [\<lparr>rank_el = Some [49], title_el = None, artist_el = None\<rparr>,
         \<lparr>rank_el = Some [178], title_el = None, artist_el = None\<rparr>])) = []"
  using fetch_melon_chart_failure
      [of 404 "Parsed [\<lparr>rank_el = Some [49], title_el = None, artist_el = None\<rparr>]"
          "\<lparr>rank_el = Some [178], title_el = None, artist_el = None\<rparr>" "[]" ValueError]
    fetch_melon_chart_failure
      [of 200 Parse_raised
          "\<lparr>rank_el = Some [178], title_el = None, artist_el = None\<rparr>"
          "[\<lparr>rank_el = Some [49], title_el = None, artist_el = None\<rparr>,
            \<lparr>rank_el = Some [178], title_el = None, artist_el = None\<rparr>]" ValueError]
  by (simp add: row_entry_superscript_two)

text \<open>
  C8. Every item that \<open>fetch_melon_chart\<close> returns was made from a row of the page,
  and when that row has no title element the item's title is the placeholder
  U+C81C U+BAA9 U+0020 U+C5C6 U+C74C, when it has no artist element the item's artist
  is the placeholder U+C544 U+D2F0 U+C2A4 U+D2B8 U+0020 U+C5C6 U+C74C.
\<close>

theorem fetch_melon_chart_placeholders:
  assumes "item \<in> set (fetch_melon_chart got)"
  shows "\<exists>rows row. got = Melon_response 200 (Parsed rows) \<and> row \<in> set rows
           \<and> row_entry row = Inr (Some item)
           \<and> (title_el row = None \<longrightarrow> title item = [51228, 47785, 32, 50630, 51020])
           \<and> (artist_el row = None \<longrightarrow>
                artist item = [50500, 54000, 49828, 53944, 32, 50630, 51020])"
proof -
  obtain rows out where got: "got = Melon_response 200 (Parsed rows)"
    and out: "parse_rows rows [] = Inr out" and fetched: "fetch_melon_chart got = out"
  proof (cases got)
    case Melon_raised
    with assms show ?thesis by (simp add: fetch_melon_chart_def)
  next
    case (Melon_response status_code page)
    show ?thesis
    proof (cases page)
      case Parse_raised
      with assms Melon_response show ?thesis
        by (simp add: fetch_melon_chart_def split: if_splits)
    next
      case (Parsed rows)
      show ?thesis
      proof (cases "parse_rows rows []")
        case (Inl e)
        with assms Melon_response Parsed show ?thesis
          by (simp add: fetch_melon_chart_def split: if_splits)
      next
        case (Inr out)
        have ok: "status_code = 200"
        proof (rule ccontr)
          assume "status_code \<noteq> 200"
          with assms Melon_response show False by (simp add: fetch_melon_chart_def)
        qed
        have "fetch_melon_chart got = out"
          using Melon_response Parsed Inr ok by (simp add: fetch_melon_chart_def)
        with Melon_response Parsed Inr ok that [of rows out] show ?thesis
          by simp
      qed
    qed
  qed
  from assms fetched have "item \<in> set out" by simp
  from parse_rows_items [OF out this] obtain row
    where row: "row \<in> set rows" "row_entry row = Inr (Some item)"
    by auto
  have t: "title_el row = None \<longrightarrow> title item = [51228, 47785, 32, 50630, 51020]"
    using row_entry_fields(1) [OF row(2)] by (simp add: no_title_def)
  have a: "artist_el row = None \<longrightarrow>
           artist item = [50500, 54000, 49828, 53944, 32, 50630, 51020]"
    using row_entry_fields(2) [OF row(2)] by (simp add: no_artist_def)
  show ?thesis
    by (rule exI [of _ rows], rule exI [of _ row]) (intro conjI got row t a)
qed


theorem fetch_melon_chart_placeholders_witness:
  "\<lparr>rank = 1, title = [51228, 47785, 32, 50630, 51020],
      artist = [50500, 54000, 49828, 53944, 32, 50630, 51020]\<rparr>
     \<in> set (fetch_melon_chart (Melon_response 200 (Parsed
          [\<lparr>rank_el = Some [49], title_el = None, artist_el = None\<rparr>])))
   \<and> (\<exists>rows row.
         Melon_response 200 (Parsed [\<lparr>rank_el = Some [49], title_el = None, artist_el = None\<rparr>])
           = Melon_response 200 (Parsed rows)
         \<and> row \<in> set rows
         \<and> row_entry row = Inr (Some \<lparr>rank = 1, title = [51228, 47785, 32, 50630, 51020],
                artist = [50500, 54000, 49828, 53944, 32, 50630, 51020]\<rparr>)
         \<and> (title_el row = None \<longrightarrow>
              title \<lparr>rank = 1, title = [51228, 47785, 32, 50630, 51020],
                artist = [50500, 54000, 49828, 53944, 32, 50630, 51020]\<rparr>
              = [51228, 47785, 32, 50630, 51020])
         \<and> (artist_el row = None \<longrightarrow>
              artist \<lparr>rank = 1, title = [51228, 47785, 32, 50630, 51020],
                artist = [50500, 54000, 49828, 53944, 32, 50630, 51020]\<rparr>
              = [50500, 54000, 49828, 53944, 32, 50630, 51020]))"
proof -
  have h: "\<lparr>rank = 1, title = [51228, 47785, 32, 50630, 51020],
      artist = [50500, 54000, 49828, 53944, 32, 50630, 51020]\<rparr>
     \<in> set (fetch_melon_chart (Melon_response 200 (Parsed
          [\<lparr>rank_el = Some [49], title_el = None, artist_el = None\<rparr>])))"
    by (simp add: fetch_melon_chart_def row_entry_digit_one)
  from h fetch_melon_chart_placeholders [OF h] show ?thesis
    by (rule conjI)
qed

text \<open>
  C3. The test of the loop is \<open>rank.isdigit()\<close>, which U+00B2 (superscript two)
  passes although it is no decimal digit, and \<open>int\<close> raises ValueError on it. A page
  of three rows whose second rank is U+00B2 yields the empty chart: the row is not
  dropped on its own, the rows around it are lost with it. With a letter in its place
  the second row alone is dropped, and the two other rows come out in the order of the
  page.
\<close>

theorem fetch_melon_chart_superscript_rank:
  "py_isdigit [178] \<and> py_int [178] = Inl ValueError
   \<and> fetch_melon_chart (Melon_response 200 (Parsed
        [\<lparr>rank_el = Some [49], title_el = None, artist_el = None\<rparr>,
         \<lparr>rank_el = Some [178], title_el = None, artist_el = None\<rparr>,
         \<lparr>rank_el = Some [32, 51, 10], title_el = Some [32, 84, 51], artist_el = Some [89, 32]\<rparr>])) = []
   \<and> fetch_melon_chart (Melon_response 200 (Parsed
        [\<lparr>rank_el = Some [49], title_el = None, artist_el = None\<rparr>,
         \<lparr>rank_el = Some [120], title_el = None, artist_el = None\<rparr>,
         \<lparr>rank_el = Some [32, 51, 10], title_el = Some [32, 84, 51], artist_el = Some [89, 32]\<rparr>]))
       = [\<lparr>rank = 1, title = [51228, 47785, 32, 50630, 51020],
              artist = [50500, 54000, 49828, 53944, 32, 50630, 51020]\<rparr>,
          \<lparr>rank = 3, title = [84, 51], artist = [89]\<rparr>]"
  by (simp add: fetch_melon_chart_def row_entry_digit_one row_entry_digit_three
        row_entry_superscript_two row_entry_letter py_isdigit_superscript_two py_int_def
        py_decimal_superscript_two)

text \<open>
  C2. When the scraper returns the empty list, \<open>/update-chart-db\<close> leaves the store as
  it is, calls nothing but the scraper and raises nothing: \<open>save_melon_chart_to_db\<close> is
  not called, and the chart view that follows shows the rows it showed before.
\<close>

theorem update_chart_db_empty_fetch:
  assumes "fetch_melon_chart got = []"
  shows "update_chart_db refuses d got = (d, [Fetch_melon_chart], None)
       \<and> melon_chart (fst (update_chart_db refuses d got)) = melon_chart d"
  using assms by (simp add: update_chart_db_def)

theorem update_chart_db_empty_fetch_witness:
  "fetch_melon_chart (Melon_response 503 Parse_raised) = []
   \<and> update_chart_db (\<lambda>s item. False)
        \<lparr>search_count = [], melon_chart_data = [\<lparr>rank = 1, title = [65], artist = [88]\<rparr>]\<rparr>
        (Melon_response 503 Parse_raised)
     = (\<lparr>search_count = [], melon_chart_data = [\<lparr>rank = 1, title = [65], artist = [88]\<rparr>]\<rparr>,
        [Fetch_melon_chart], None)
   \<and> melon_chart (fst (update_chart_db (\<lambda>s item. False)
        \<lparr>search_count = [], melon_chart_data = [\<lparr>rank = 1, title = [65], artist = [88]\<rparr>]\<rparr>
        (Melon_response 503 Parse_raised)))
     = [\<lparr>rank = 1, title = [65], artist = [88]\<rparr>]"
proof -
  have h: "fetch_melon_chart (Melon_response 503 Parse_raised) = []"
    by (simp add: fetch_melon_chart_def)
  from update_chart_db_empty_fetch [OF h,
      of "\<lambda>s item. False"
         "\<lparr>search_count = [], melon_chart_data = [\<lparr>rank = 1, title = [65], artist = [88]\<rparr>]\<rparr>"]
  show ?thesis using h by (simp add: melon_chart_def)
qed


section \<open>Properties of the blog search\<close>

lemma all_dropWhile_iff:
  "(\<forall>x \<in> set (dropWhile P s). P x) \<longleftrightarrow> (\<forall>x \<in> set s. P x)"
  by (induction s) auto

lemma py_strip_empty_iff: "py_strip s = [] \<longleftrightarrow> list_all py_isspace s"
  by (simp add: py_strip_def all_dropWhile_iff list_all_iff)

text \<open>
  C9. When one of the two environment variables of the API keys is unset or holds
  nothing but whitespace, \<open>search_naver_blog\<close> returns no items and the message that
  the keys are missing, which is not empty, for every query and whatever the network
  would answer; it sends no request.
\<close>

theorem search_naver_blog_no_credentials:
  assumes "id_env = None \<or> (\<exists>s. id_env = Some s \<and> list_all py_isspace s)
         \<or> secret_env = None \<or> (\<exists>s. secret_env = Some s \<and> list_all py_isspace s)"
  shows "search_naver_blog (getenv_stripped id_env) (getenv_stripped secret_env)
           requests_get query display sort_mode
         = (\<lparr>items = [], error = Some no_key_message\<rparr>, [])
       \<and> no_key_message \<noteq> []"
proof -
  have "getenv_stripped id_env = [] \<or> getenv_stripped secret_env = []"
    using assms by (auto simp: getenv_stripped_def py_strip_empty_iff)
  then show ?thesis
    by (auto simp: search_naver_blog_def no_key_message_def)
qed

theorem search_naver_blog_no_credentials_witness:
  "(Some [97, 98] = (None :: pystr option) \<or> (\<exists>s. Some [97, 98] = Some s \<and> list_all py_isspace s)
      \<or> Some [32, 9] = (None :: pystr option) \<or> (\<exists>s. Some [32, 9] = Some s \<and> list_all py_isspace s))
   \<and> search_naver_blog (getenv_stripped (Some [97, 98])) (getenv_stripped (Some [32, 9]))
         (\<lambda>r. Blog_response 200 (Json_items (Some [()]))) [113] 10 [115, 105, 109]
       = (\<lparr>items = [], error = Some no_key_message\<rparr>, [])"
proof -
  have h: "Some [97, 98] = (None :: pystr option) \<or> (\<exists>s. Some [97, 98] = Some s \<and> list_all py_isspace s)
      \<or> Some [32, 9] = (None :: pystr option) \<or> (\<exists>s. Some [32, 9] = Some s \<and> list_all py_isspace s)"
    by (simp add: py_isspace_def)
  from search_naver_blog_no_credentials [OF h, of "\<lambda>r. Blog_response 200 (Json_items (Some [()]))"
      "[113]" 10 "[115, 105, 109]"]
  have "search_naver_blog (getenv_stripped (Some [97, 98])) (getenv_stripped (Some [32, 9]))
         (\<lambda>r. Blog_response 200 (Json_items (Some [()]))) [113] 10 [115, 105, 109]
       = (\<lparr>items = [], error = Some no_key_message\<rparr>, [])"
    by (rule conjunct1)
  with h show ?thesis by (rule conjI)
qed


section \<open>Properties of the artist ranking\<close>

lemma map_of_count_artist:
  "map_of (count_artist a g) =
     (map_of g)(a \<mapsto> (case map_of g a of None \<Rightarrow> 1 | Some n \<Rightarrow> n + 1))"
  by (induction a g rule: count_artist.induct) (auto simp: fun_eq_iff)

lemma fst_set_count_artist: "fst ` set (count_artist a g) = insert a (fst ` set g)"
  by (induction a g rule: count_artist.induct) auto

lemma distinct_count_artist:
  "distinct (map fst g) \<Longrightarrow> distinct (map fst (count_artist a g))"
proof (induction a g rule: count_artist.induct)
  case (1 a)
  show ?case by simp
next
  case (2 a b n groups)
  then show ?case
    using fst_set_count_artist [of a groups] by auto
qed

lemma distinct_foldl_count_artist:
  "distinct (map fst g) \<Longrightarrow>
   distinct (map fst (foldl (\<lambda>groups r. count_artist (artist r) groups) g rows))"
  by (induction rows arbitrary: g) (simp_all add: distinct_count_artist)

lemma filter_artist_absent:
  "a \<notin> artist ` set rows \<Longrightarrow> filter (\<lambda>r. artist r = a) rows = []"
  by (induction rows) auto

lemma map_of_foldl_count_artist:
  "map_of (foldl (\<lambda>groups r. count_artist (artist r) groups) g rows) a =
     (if a \<in> artist ` set rows
      then Some ((case map_of g a of None \<Rightarrow> 0 | Some n \<Rightarrow> n)
                 + int (length (filter (\<lambda>r. artist r = a) rows)))
      else map_of g a)"
proof (induction rows arbitrary: g)
  case Nil
  show ?case by simp
next
  case (Cons r rs)
  show ?case
    by (simp add: Cons.IH map_of_count_artist filter_artist_absent split: option.split)
qed

lemma group_by_artist_iff:
  "(a, n) \<in> set (group_by_artist rows) \<longleftrightarrow>
     a \<in> artist ` set rows \<and> n = int (length (filter (\<lambda>r. artist r = a) rows))"
proof -
  have d: "distinct (map fst (group_by_artist rows))"
    unfolding group_by_artist_def by (rule distinct_foldl_count_artist) simp
  have "(a, n) \<in> set (group_by_artist rows) \<longleftrightarrow> map_of (group_by_artist rows) a = Some n"
    using d by simp
  also have "\<dots> \<longleftrightarrow> a \<in> artist ` set rows \<and> n = int (length (filter (\<lambda>r. artist r = a) rows))"
    unfolding group_by_artist_def map_of_foldl_count_artist by auto
  finally show ?thesis .
qed

lemma distinct_group_by_artist: "distinct (map fst (group_by_artist rows))"
  unfolding group_by_artist_def by (rule distinct_foldl_count_artist) simp

lemma ordered_groups:
  fixes g :: "(pystr \<times> int) list"
  assumes "distinct (map fst g)"
  shows "sorted_wrt (\<lambda>(a, n) (b, m). m < n \<or> (m = n \<and> a < b))
           (sort_key (\<lambda>(a, song_count). (- song_count, a)) g)"
    and "distinct (map fst (sort_key (\<lambda>(a, song_count). (- song_count, a)) g))"
proof -
  let ?key = "\<lambda>(a, song_count :: int). (- song_count, a :: pystr)"
  let ?full = "sort_key ?key g"
  have dg: "distinct g" using assms by (rule distinct_map [THEN iffD1, THEN conjunct1])
  have inj: "inj ?key" by (auto simp: inj_on_def)
  have "inj_on ?key (set g)"
    using inj by (rule inj_on_subset) simp
  then have "distinct (map ?key ?full)"
    using dg by (simp add: distinct_map)
  moreover have "sorted (map ?key ?full)" by simp
  ultimately have "sorted_wrt (<) (map ?key ?full)"
    by (simp add: strict_sorted_iff)
  then have "sorted_wrt (\<lambda>x y. ?key x < ?key y) ?full"
    by (simp add: sorted_wrt_map)
  moreover have "(\<lambda>x y. ?key x < ?key y) = (\<lambda>(a, n) (b, m). m < n \<or> (m = n \<and> a < b))"
    by (auto simp: fun_eq_iff)
  ultimately show "sorted_wrt (\<lambda>(a, n) (b, m). m < n \<or> (m = n \<and> a < b)) ?full"
    by simp
  have "inj_on fst (set g)" using assms by (simp add: distinct_map)
  then show "distinct (map fst ?full)"
    using dg by (simp add: distinct_map)
qed


lemma get_artist_count_ranking_example:
  "sort_key (\<lambda>(a, song_count). (- song_count, a))
     (group_by_artist [\<lparr>rank = 1, title = [84, 49], artist = [88]\<rparr>,
        \<lparr>rank = 2, title = [84, 50], artist = [88]\<rparr>,
        \<lparr>rank = 3, title = [84, 51], artist = [89]\<rparr>])
   = [([88], 2), ([89], 1)]"
  by (simp add: group_by_artist_def)

text \<open>
  C5, for a limit from 0 to \<open>2^63 - 1\<close>. \<open>get_artist_count_ranking\<close> returns the first
  \<open>limit\<close> pairs of a list that has one pair for each artist of the snapshot, with the
  number of the artist's rows, and that is ordered by falling count and, among equal
  counts, by rising artist; so it returns at most \<open>limit\<close> pairs. On the snapshot of
  the rows (1, T1, X), (2, T2, X), (3, T3, Y) it returns the first \<open>limit\<close> pairs of
  (X, 2), (Y, 1): both of them, in this order, for every limit from 2 on, such as the
  default limit 10 of the handler \<open>/artist-ranking\<close>.
\<close>

theorem get_artist_count_ranking_limit:
  assumes "0 \<le> limit" and "limit \<le> 9223372036854775807"
  shows "(\<exists>full. get_artist_count_ranking d limit = Inr (take (nat limit) full)
            \<and> int (length (take (nat limit) full)) \<le> limit
            \<and> (\<forall>a n. (a, n) \<in> set full \<longleftrightarrow>
                   a \<in> artist ` set (melon_chart_data d)
                   \<and> n = int (length (filter (\<lambda>r. artist r = a) (melon_chart_data d))))
            \<and> distinct (map fst full)
            \<and> sorted_wrt (\<lambda>(a, n) (b, m). m < n \<or> (m = n \<and> a < b)) full)
       \<and> get_artist_count_ranking
            \<lparr>search_count = searches,
             melon_chart_data = [\<lparr>rank = 1, title = [84, 49], artist = [88]\<rparr>,
               \<lparr>rank = 2, title = [84, 50], artist = [88]\<rparr>,
               \<lparr>rank = 3, title = [84, 51], artist = [89]\<rparr>]\<rparr> limit
          = Inr (take (nat limit) [([88], 2), ([89], 1)])
       \<and> (2 \<le> limit \<longrightarrow>
            get_artist_count_ranking
              \<lparr>search_count = searches,
               melon_chart_data = [\<lparr>rank = 1, title = [84, 49], artist = [88]\<rparr>,
                 \<lparr>rank = 2, title = [84, 50], artist = [88]\<rparr>,
                 \<lparr>rank = 3, title = [84, 51], artist = [89]\<rparr>]\<rparr> limit
            = Inr [([88], 2), ([89], 1)])"
proof (intro conjI impI)
  let ?full = "sort_key (\<lambda>(a, song_count). (- song_count, a))
                 (group_by_artist (melon_chart_data d))"
  have range: "int64 limit"
    using assms by (simp add: int64_def)
  have taken: "get_artist_count_ranking d limit = Inr (take (nat limit) ?full)"
    using assms by (simp add: get_artist_count_ranking_def sql_limit_def range)
  have bound: "int (length (take (nat limit) ?full)) \<le> limit"
    using assms by simp
  have members: "\<forall>a n. (a, n) \<in> set ?full \<longleftrightarrow>
                   a \<in> artist ` set (melon_chart_data d)
                   \<and> n = int (length (filter (\<lambda>r. artist r = a) (melon_chart_data d)))"
    by (simp add: group_by_artist_iff)
  note ordered = ordered_groups [OF distinct_group_by_artist [of "melon_chart_data d"]]
  show "\<exists>full. get_artist_count_ranking d limit = Inr (take (nat limit) full)
            \<and> int (length (take (nat limit) full)) \<le> limit
            \<and> (\<forall>a n. (a, n) \<in> set full \<longleftrightarrow>
                   a \<in> artist ` set (melon_chart_data d)
                   \<and> n = int (length (filter (\<lambda>r. artist r = a) (melon_chart_data d))))
            \<and> distinct (map fst full)
            \<and> sorted_wrt (\<lambda>(a, n) (b, m). m < n \<or> (m = n \<and> a < b)) full"
    by (rule exI [of _ ?full]) (intro conjI taken bound members ordered)
  show "get_artist_count_ranking
            \<lparr>search_count = searches,
             melon_chart_data = [\<lparr>rank = 1, title = [84, 49], artist = [88]\<rparr>,
               \<lparr>rank = 2, title = [84, 50], artist = [88]\<rparr>,
               \<lparr>rank = 3, title = [84, 51], artist = [89]\<rparr>]\<rparr> limit
          = Inr (take (nat limit) [([88], 2), ([89], 1)])"
    using assms
    by (simp add: get_artist_count_ranking_def sql_limit_def range
          get_artist_count_ranking_example)
next
  have range: "int64 limit"
    using assms by (simp add: int64_def)
  assume "2 \<le> limit"
  then have "take (nat limit) [([88], 2 :: int), ([89 :: nat], 1)] = [([88], 2), ([89], 1)]"
    by simp
  then show "get_artist_count_ranking
              \<lparr>search_count = searches,
               melon_chart_data = [\<lparr>rank = 1, title = [84, 49], artist = [88]\<rparr>,
                 \<lparr>rank = 2, title = [84, 50], artist = [88]\<rparr>,
                 \<lparr>rank = 3, title = [84, 51], artist = [89]\<rparr>]\<rparr> limit
            = Inr [([88], 2), ([89], 1)]"
    using assms
    by (simp add: get_artist_count_ranking_def sql_limit_def range
          get_artist_count_ranking_example)
qed

theorem get_artist_count_ranking_limit_witness:
  "(0 :: int) \<le> 10 \<and> (10 :: int) \<le> 9223372036854775807 \<and> (2 :: int) \<le> 10
   \<and> get_artist_count_ranking
        \<lparr>search_count = [],
         melon_chart_data = [\<lparr>rank = 1, title = [84, 49], artist = [88]\<rparr>,
           \<lparr>rank = 2, title = [84, 50], artist = [88]\<rparr>,
           \<lparr>rank = 3, title = [84, 51], artist = [89]\<rparr>]\<rparr> 10
      = Inr [([88], 2), ([89], 1)]"
proof -
  let ?d = "\<lparr>search_count = [],
         melon_chart_data = [\<lparr>rank = 1, title = [84, 49], artist = [88]\<rparr>,
           \<lparr>rank = 2, title = [84, 50], artist = [88]\<rparr>,
           \<lparr>rank = 3, title = [84, 51], artist = [89]\<rparr>]\<rparr>"
  have h0: "(0 :: int) \<le> 10" and h1: "(10 :: int) \<le> 9223372036854775807"
    and h2: "(2 :: int) \<le> 10" by simp_all
  note t = get_artist_count_ranking_limit [OF h0 h1, of ?d "[]"]
  note example = t [THEN conjunct2, THEN conjunct2, THEN mp, OF h2]
  show ?thesis
    by (intro conjI h0 h1 h2 example)
qed

text \<open>
  C5 as stated, for every limit, fails at the limit \<open>2^63\<close>: binding it to LIMIT raises
  OverflowError and no pairs are returned. The example of C5, stated for every limit,
  fails at the limit 1: only the pair (X, 2) is returned.
\<close>

theorem get_artist_count_ranking_limit_counterexample:
  "get_artist_count_ranking
     \<lparr>search_count = [],
      melon_chart_data = [\<lparr>rank = 1, title = [84, 49], artist = [88]\<rparr>,
        \<lparr>rank = 2, title = [84, 50], artist = [88]\<rparr>,
        \<lparr>rank = 3, title = [84, 51], artist = [89]\<rparr>]\<rparr> 9223372036854775808
     = Inl OverflowError
   \<and> get_artist_count_ranking
     \<lparr>search_count = [],
      melon_chart_data = [\<lparr>rank = 1, title = [84, 49], artist = [88]\<rparr>,
        \<lparr>rank = 2, title = [84, 50], artist = [88]\<rparr>,
        \<lparr>rank = 3, title = [84, 51], artist = [89]\<rparr>]\<rparr> 1
     = Inr [([88], 2)]"
  by (simp add: get_artist_count_ranking_def sql_limit_def int64_def
        get_artist_count_ranking_example)


section \<open>Properties of the artist search\<close>

lemma sql_like_percent:
  "sql_like (37 # ps) s \<longleftrightarrow> (\<exists>pre rest. s = pre @ rest \<and> sql_like ps rest)"
proof (induction s)
  case Nil
  show ?case by simp
next
  case (Cons c cs)
  have "(\<exists>pre rest. c # cs = pre @ rest \<and> sql_like ps rest) \<longleftrightarrow>
        sql_like ps (c # cs) \<or> (\<exists>pre rest. cs = pre @ rest \<and> sql_like ps rest)"
    by (auto simp: Cons_eq_append_conv)
  with Cons show ?case by simp
qed

lemma sql_like_literal:
  assumes "37 \<notin> set q" and "95 \<notin> set q"
  shows "sql_like (q @ ps) s \<longleftrightarrow>
         (\<exists>mid rest. s = mid @ rest \<and> map sql_lower mid = map sql_lower q \<and> sql_like ps rest)"
  using assms
proof (induction q arbitrary: s)
  case Nil
  show ?case by simp
next
  case (Cons p q)
  then have p: "p \<noteq> 37" "p \<noteq> 95" and q: "37 \<notin> set q" "95 \<notin> set q"
    by auto
  note IH = Cons.IH [OF q]
  show ?case
  proof (cases s)
    case Nil
    with p show ?thesis by simp
  next
    case (Cons c cs)
    have "(\<exists>mid rest. c # cs = mid @ rest \<and> map sql_lower mid = map sql_lower (p # q)
             \<and> sql_like ps rest) \<longleftrightarrow>
          sql_lower p = sql_lower c \<and>
          (\<exists>mid rest. cs = mid @ rest \<and> map sql_lower mid = map sql_lower q \<and> sql_like ps rest)"
    proof
      assume "\<exists>mid rest. c # cs = mid @ rest \<and> map sql_lower mid = map sql_lower (p # q)
             \<and> sql_like ps rest"
      then obtain mid rest where m: "c # cs = mid @ rest"
        "map sql_lower mid = map sql_lower (p # q)" "sql_like ps rest"
        by blast
      from m(2) obtain z zs where z: "mid = z # zs" "sql_lower z = sql_lower p"
        "map sql_lower zs = map sql_lower q"
        by (auto simp: map_eq_Cons_conv)
      with m(1) have "z = c" "cs = zs @ rest" by simp_all
      with z m(3) show "sql_lower p = sql_lower c \<and>
          (\<exists>mid rest. cs = mid @ rest \<and> map sql_lower mid = map sql_lower q \<and> sql_like ps rest)"
        by auto
    next
      assume "sql_lower p = sql_lower c \<and>
          (\<exists>mid rest. cs = mid @ rest \<and> map sql_lower mid = map sql_lower q \<and> sql_like ps rest)"
      then obtain mid rest where m: "sql_lower p = sql_lower c" "cs = mid @ rest"
        "map sql_lower mid = map sql_lower q" "sql_like ps rest"
        by blast
      then have "c # cs = (c # mid) @ rest \<and> map sql_lower (c # mid) = map sql_lower (p # q)
          \<and> sql_like ps rest"
        by simp
      then show "\<exists>mid rest. c # cs = mid @ rest \<and> map sql_lower mid = map sql_lower (p # q)
             \<and> sql_like ps rest"
        by blast
    qed
    with Cons p IH [of cs] show ?thesis by simp
  qed
qed

lemma sql_like_contains:
  assumes "37 \<notin> set q" and "95 \<notin> set q"
  shows "sql_like (37 # q @ [37]) s \<longleftrightarrow>
         (\<exists>pre mid post. s = pre @ mid @ post \<and> map sql_lower mid = map sql_lower q)"
proof -
  have any: "\<And>t. sql_like [37] t"
    using sql_like_percent [of "[]"] by auto
  show ?thesis
    unfolding sql_like_percent sql_like_literal [OF assms]
    by (auto simp: any)
qed

lemma sql_lower_no_letter:
  assumes "\<not> (65 \<le> c \<and> c \<le> 90)" and "\<not> (97 \<le> c \<and> c \<le> 122)"
  shows "sql_lower m = sql_lower c \<longleftrightarrow> m = c"
  using assms by (auto simp: sql_lower_def)

lemma map_sql_lower_no_letter:
  assumes "\<forall>c \<in> set q. \<not> (65 \<le> c \<and> c \<le> 90) \<and> \<not> (97 \<le> c \<and> c \<le> 122)"
  shows "map sql_lower mid = map sql_lower q \<longleftrightarrow> mid = q"
  using assms
proof (induction q arbitrary: mid)
  case Nil
  show ?case by simp
next
  case (Cons c q)
  then show ?case
    by (cases mid) (auto simp: sql_lower_no_letter)
qed


lemma utf8_length_pattern: "utf8_length (37 # q @ [37]) = utf8_length q + 2"
  by (simp add: utf8_length_def utf8_bytes_def)

lemma utf8_length_replicate: "utf8_length (replicate n 97) = n"
  by (simp add: utf8_length_def utf8_bytes_def sum_list_replicate)

lemma py_strip_replicate:
  assumes "\<not> py_isspace c"
  shows "py_strip (replicate n c) = replicate n c"
  using assms by (simp add: py_strip_def dropWhile_replicate)

lemma takeWhile_no_nul:
  "0 \<notin> set s \<Longrightarrow> takeWhile (\<lambda>c. c \<noteq> (0 :: nat)) s = s"
  by (induction s) auto

lemma sql_cstring_pattern:
  assumes "0 \<notin> set q"
  shows "sql_cstring (37 # q @ [37]) = 37 # map sql_char q @ [37]"
proof -
  have "takeWhile (\<lambda>c. c \<noteq> 0) (37 # q @ [37]) = 37 # q @ [37]"
    using assms by (intro takeWhile_no_nul) simp
  moreover have "map sql_char (37 # q @ [37]) = 37 # map sql_char q @ [37]"
    by (simp add: sql_char_def)
  ultimately show ?thesis
    by (simp only: sql_cstring_def)
qed

lemma sql_cstring_clean:
  assumes "0 \<notin> set s" and "65534 \<notin> set s" and "65535 \<notin> set s"
  shows "sql_cstring s = s"
proof -
  have "takeWhile (\<lambda>c. c \<noteq> 0) s = s"
    using assms(1) by (rule takeWhile_no_nul)
  moreover have "map sql_char s = s"
    using assms(2,3) by (intro map_idI) (auto simp: sql_char_def)
  ultimately show ?thesis
    by (simp only: sql_cstring_def)
qed

lemma sql_char_wildcards:
  assumes "37 \<notin> set q" and "95 \<notin> set q"
  shows "37 \<notin> set (map sql_char q)" and "95 \<notin> set (map sql_char q)"
  using assms by (auto simp: sql_char_def split: if_splits)

lemma select_artist_like_wrapped:
  assumes "0 \<notin> set q" and "37 \<notin> set q" and "95 \<notin> set q" and "utf8_length q \<le> 49998"
  shows "select_artist_like d (37 # q @ [37]) =
     Inr (filter (\<lambda>r. \<exists>pre mid post. sql_cstring (artist r) = pre @ mid @ post
                        \<and> map sql_lower mid = map sql_lower (map sql_char q)) (melon_chart d))"
proof -
  have like: "\<And>s. sql_like (37 # map sql_char q @ [37]) s \<longleftrightarrow>
      (\<exists>pre mid post. s = pre @ mid @ post \<and> map sql_lower mid = map sql_lower (map sql_char q))"
    by (rule sql_like_contains [OF sql_char_wildcards [OF assms(2,3)]])
  have short: "\<not> 1000000000 < utf8_length (37 # q @ [37])"
    "\<not> 50000 < utf8_length (37 # q @ [37])"
    using assms(4) by (simp_all add: utf8_length_pattern)
  show ?thesis
    unfolding select_artist_like_def sql_cstring_pattern [OF assms(1)] melon_chart_def
    using short by (simp add: like filter_sort)
qed

text \<open>
  C6, for a query without \<open>%\<close>, \<open>_\<close> and U+0000, of at most 49,998 bytes of UTF-8. When
  the trimmed query is not empty, \<open>/artist-search\<close> returns, in ascending order of rank,
  exactly the rows whose artist, as LIKE reads it (up to its first U+0000, with U+FFFE
  and U+FFFF read as U+FFFD), contains the query up to the case of the letters A to Z.
  When the query has no such letter and neither U+FFFE nor U+FFFF, and no artist of the
  snapshot has U+0000, U+FFFE or U+FFFF, these are the rows whose artist contains the
  query literally. The results are in ascending order of rank whenever the handler
  returns. When the trimmed query is empty, or the argument is absent, the result is
  empty and no SELECT is run.
\<close>

theorem artist_search_without_wildcards:
  "(py_strip q \<noteq> [] \<and> 0 \<notin> set (py_strip q) \<and> 37 \<notin> set (py_strip q)
      \<and> 95 \<notin> set (py_strip q) \<and> utf8_length (py_strip q) \<le> 49998 \<longrightarrow>
      artist_search d (Some q) =
        (Inr (py_strip q,
           filter (\<lambda>r. \<exists>pre mid post. sql_cstring (artist r) = pre @ mid @ post
                        \<and> map sql_lower mid = map sql_lower (map sql_char (py_strip q)))
             (melon_chart d)),
         [Select_artist_like (37 # py_strip q @ [37])]))
   \<and> (py_strip q \<noteq> [] \<and> 0 \<notin> set (py_strip q) \<and> 37 \<notin> set (py_strip q)
        \<and> 95 \<notin> set (py_strip q) \<and> utf8_length (py_strip q) \<le> 49998
        \<and> 65534 \<notin> set (py_strip q) \<and> 65535 \<notin> set (py_strip q)
        \<and> list_all (\<lambda>c. \<not> (65 \<le> c \<and> c \<le> 90) \<and> \<not> (97 \<le> c \<and> c \<le> 122)) (py_strip q)
        \<and> list_all (\<lambda>r. 0 \<notin> set (artist r) \<and> 65534 \<notin> set (artist r)
                        \<and> 65535 \<notin> set (artist r)) (melon_chart_data d) \<longrightarrow>
      fst (artist_search d (Some q)) =
        Inr (py_strip q,
          filter (\<lambda>r. \<exists>pre post. artist r = pre @ py_strip q @ post) (melon_chart d)))
   \<and> (\<forall>query results. fst (artist_search d (Some q)) = Inr (query, results) \<longrightarrow>
        sorted (map rank results))
   \<and> (py_strip q = [] \<longrightarrow> artist_search d (Some q) = (Inr ([], []), []))
   \<and> artist_search d None = (Inr ([], []), [])"
proof (intro conjI impI allI)
  assume a: "py_strip q \<noteq> [] \<and> 0 \<notin> set (py_strip q) \<and> 37 \<notin> set (py_strip q)
      \<and> 95 \<notin> set (py_strip q) \<and> utf8_length (py_strip q) \<le> 49998"
  then have "select_artist_like d (37 # py_strip q @ [37]) =
     Inr (filter (\<lambda>r. \<exists>pre mid post. sql_cstring (artist r) = pre @ mid @ post
                        \<and> map sql_lower mid = map sql_lower (map sql_char (py_strip q)))
            (melon_chart d))"
    using select_artist_like_wrapped [of "py_strip q" d] by blast
  with a show "artist_search d (Some q) =
        (Inr (py_strip q,
           filter (\<lambda>r. \<exists>pre mid post. sql_cstring (artist r) = pre @ mid @ post
                        \<and> map sql_lower mid = map sql_lower (map sql_char (py_strip q)))
             (melon_chart d)),
         [Select_artist_like (37 # py_strip q @ [37])])"
    by (simp add: artist_search_def Let_def)
next
  assume a: "py_strip q \<noteq> [] \<and> 0 \<notin> set (py_strip q) \<and> 37 \<notin> set (py_strip q)
        \<and> 95 \<notin> set (py_strip q) \<and> utf8_length (py_strip q) \<le> 49998
        \<and> 65534 \<notin> set (py_strip q) \<and> 65535 \<notin> set (py_strip q)
        \<and> list_all (\<lambda>c. \<not> (65 \<le> c \<and> c \<le> 90) \<and> \<not> (97 \<le> c \<and> c \<le> 122)) (py_strip q)
        \<and> list_all (\<lambda>r. 0 \<notin> set (artist r) \<and> 65534 \<notin> set (artist r)
                        \<and> 65535 \<notin> set (artist r)) (melon_chart_data d)"
  then have selected: "select_artist_like d (37 # py_strip q @ [37]) =
     Inr (filter (\<lambda>r. \<exists>pre mid post. sql_cstring (artist r) = pre @ mid @ post
                        \<and> map sql_lower mid = map sql_lower (map sql_char (py_strip q)))
            (melon_chart d))"
    using select_artist_like_wrapped [of "py_strip q" d] by blast
  from a have "map sql_char (py_strip q) = py_strip q"
    by (intro map_idI) (auto simp: sql_char_def)
  moreover from a have "\<And>mid. map sql_lower mid = map sql_lower (py_strip q) \<longleftrightarrow> mid = py_strip q"
    using map_sql_lower_no_letter [of "py_strip q"] by (simp add: list_all_iff)
  moreover from a have "\<And>r. r \<in> set (melon_chart d) \<Longrightarrow> sql_cstring (artist r) = artist r"
    by (intro sql_cstring_clean) (auto simp: list_all_iff melon_chart_def)
  ultimately have "filter (\<lambda>r. \<exists>pre mid post. sql_cstring (artist r) = pre @ mid @ post
                        \<and> map sql_lower mid = map sql_lower (map sql_char (py_strip q)))
            (melon_chart d)
      = filter (\<lambda>r. \<exists>pre post. artist r = pre @ py_strip q @ post) (melon_chart d)"
    by (intro filter_cong refl) simp
  with a selected show "fst (artist_search d (Some q)) =
        Inr (py_strip q,
          filter (\<lambda>r. \<exists>pre post. artist r = pre @ py_strip q @ post) (melon_chart d))"
    by (simp add: artist_search_def Let_def)
next
  fix query results
  assume "fst (artist_search d (Some q)) = Inr (query, results)"
  then have "results = [] \<or> select_artist_like d (37 # py_strip q @ [37]) = Inr results"
    by (auto simp: artist_search_def Let_def split: if_splits sum.splits)
  then show "sorted (map rank results)"
    by (auto simp: select_artist_like_def split: if_splits)
next
  assume "py_strip q = []"
  then show "artist_search d (Some q) = (Inr ([], []), [])"
    by (simp add: artist_search_def Let_def)
next
  have "py_strip [] = []" by (simp add: py_strip_def)
  then show "artist_search d None = (Inr ([], []), [])"
    by (simp add: artist_search_def Let_def)
qed


lemma artist_search_example_x:
  "artist_search
     \<lparr>search_count = [],
      melon_chart_data = [\<lparr>rank = 2, title = [84, 50], artist = [88]\<rparr>,
        \<lparr>rank = 3, title = [84, 51], artist = [89]\<rparr>,
        \<lparr>rank = 1, title = [84, 49], artist = [88]\<rparr>]\<rparr> (Some [32, 120])
   = (Inr ([120], [\<lparr>rank = 1, title = [84, 49], artist = [88]\<rparr>,
                   \<lparr>rank = 2, title = [84, 50], artist = [88]\<rparr>]),
      [Select_artist_like [37, 120, 37]])"
  by (simp add: artist_search_def Let_def select_artist_like_def py_strip_def py_isspace_def
        utf8_length_def utf8_bytes_def sql_cstring_def sql_char_def sql_lower_def)

lemma artist_search_example_percent:
  "artist_search
     \<lparr>search_count = [],
      melon_chart_data = [\<lparr>rank = 2, title = [84, 50], artist = [88]\<rparr>,
        \<lparr>rank = 3, title = [84, 51], artist = [89]\<rparr>,
        \<lparr>rank = 1, title = [84, 49], artist = [88]\<rparr>]\<rparr> (Some [37])
   = (Inr ([37], [\<lparr>rank = 1, title = [84, 49], artist = [88]\<rparr>,
                  \<lparr>rank = 2, title = [84, 50], artist = [88]\<rparr>,
                  \<lparr>rank = 3, title = [84, 51], artist = [89]\<rparr>]),
      [Select_artist_like [37, 37, 37]])"
  by (simp add: artist_search_def Let_def select_artist_like_def py_strip_def py_isspace_def
        utf8_length_def utf8_bytes_def sql_cstring_def sql_char_def sql_lower_def)

lemma artist_search_example_nul:
  "artist_search
     \<lparr>search_count = [],
      melon_chart_data = [\<lparr>rank = 1, title = [84], artist = [88]\<rparr>,
        \<lparr>rank = 2, title = [84], artist = [97, 0, 98]\<rparr>,
        \<lparr>rank = 3, title = [84], artist = [65534]\<rparr>]\<rparr> (Some [0])
   = (Inr ([0], [\<lparr>rank = 1, title = [84], artist = [88]\<rparr>,
                 \<lparr>rank = 2, title = [84], artist = [97, 0, 98]\<rparr>,
                 \<lparr>rank = 3, title = [84], artist = [65534]\<rparr>]),
      [Select_artist_like [37, 0, 37]])"
  by (simp add: artist_search_def Let_def select_artist_like_def py_strip_def py_isspace_def
        utf8_length_def utf8_bytes_def sql_cstring_def sql_char_def sql_lower_def)

lemma artist_search_example_after_nul:
  "artist_search
     \<lparr>search_count = [],
      melon_chart_data = [\<lparr>rank = 1, title = [84], artist = [88]\<rparr>,
        \<lparr>rank = 2, title = [84], artist = [97, 0, 98]\<rparr>,
        \<lparr>rank = 3, title = [84], artist = [65534]\<rparr>]\<rparr> (Some [98])
   = (Inr ([98], []), [Select_artist_like [37, 98, 37]])"
  by (simp add: artist_search_def Let_def select_artist_like_def py_strip_def py_isspace_def
        utf8_length_def utf8_bytes_def sql_cstring_def sql_char_def sql_lower_def)

lemma artist_search_example_replacement:
  "artist_search
     \<lparr>search_count = [],
      melon_chart_data = [\<lparr>rank = 1, title = [84], artist = [88]\<rparr>,
        \<lparr>rank = 2, title = [84], artist = [97, 0, 98]\<rparr>,
        \<lparr>rank = 3, title = [84], artist = [65534]\<rparr>]\<rparr> (Some [65533])
   = (Inr ([65533], [\<lparr>rank = 3, title = [84], artist = [65534]\<rparr>]),
      [Select_artist_like [37, 65533, 37]])"
  by (simp add: artist_search_def Let_def select_artist_like_def py_strip_def py_isspace_def
        utf8_length_def utf8_bytes_def sql_cstring_def sql_char_def sql_lower_def)

lemma artist_search_example_long:
  "artist_search
     \<lparr>search_count = [],
      melon_chart_data = [\<lparr>rank = 1, title = [84], artist = [88]\<rparr>,
        \<lparr>rank = 2, title = [84], artist = [97, 0, 98]\<rparr>,
        \<lparr>rank = 3, title = [84], artist = [65534]\<rparr>]\<rparr> (Some (replicate 49999 97))
   = (Inl OperationalError, [Select_artist_like (37 # replicate 49999 97 @ [37])])"
proof -
  have "\<not> py_isspace 97" by (simp add: py_isspace_def)
  then have strip: "py_strip (replicate 49999 97) = replicate 49999 97"
    by (rule py_strip_replicate)
  have len: "utf8_length (37 # replicate 49999 97 @ [37]) = 50001"
    by (simp add: utf8_length_pattern utf8_length_replicate)
  have "select_artist_like
     \<lparr>search_count = [],
      melon_chart_data = [\<lparr>rank = 1, title = [84], artist = [88]\<rparr>,
        \<lparr>rank = 2, title = [84], artist = [97, 0, 98]\<rparr>,
        \<lparr>rank = 3, title = [84], artist = [65534]\<rparr>]\<rparr> (37 # replicate 49999 97 @ [37])
     = Inl OperationalError"
    by (simp add: select_artist_like_def len)
  then show ?thesis
    by (simp add: artist_search_def Let_def strip)
qed

theorem artist_search_without_wildcards_witness:
  "(py_strip [32, 120] \<noteq> [] \<and> 0 \<notin> set (py_strip [32, 120]) \<and> 37 \<notin> set (py_strip [32, 120])
      \<and> 95 \<notin> set (py_strip [32, 120]) \<and> utf8_length (py_strip [32, 120]) \<le> 49998)
   \<and> artist_search
        \<lparr>search_count = [],
         melon_chart_data = [\<lparr>rank = 2, title = [84, 50], artist = [88]\<rparr>,
           \<lparr>rank = 3, title = [84, 51], artist = [89]\<rparr>,
           \<lparr>rank = 1, title = [84, 49], artist = [88]\<rparr>]\<rparr> (Some [32, 120])
      = (Inr (py_strip [32, 120],
           filter (\<lambda>r. \<exists>pre mid post. sql_cstring (artist r) = pre @ mid @ post
                        \<and> map sql_lower mid = map sql_lower (map sql_char (py_strip [32, 120])))
             (melon_chart \<lparr>search_count = [],
                melon_chart_data = [\<lparr>rank = 2, title = [84, 50], artist = [88]\<rparr>,
                  \<lparr>rank = 3, title = [84, 51], artist = [89]\<rparr>,
                  \<lparr>rank = 1, title = [84, 49], artist = [88]\<rparr>]\<rparr>)),
         [Select_artist_like (37 # py_strip [32, 120] @ [37])])
   \<and> artist_search
        \<lparr>search_count = [],
         melon_chart_data = [\<lparr>rank = 2, title = [84, 50], artist = [88]\<rparr>,
           \<lparr>rank = 3, title = [84, 51], artist = [89]\<rparr>,
           \<lparr>rank = 1, title = [84, 49], artist = [88]\<rparr>]\<rparr> (Some [32, 120])
      = (Inr ([120], [\<lparr>rank = 1, title = [84, 49], artist = [88]\<rparr>,
                      \<lparr>rank = 2, title = [84, 50], artist = [88]\<rparr>]),
         [Select_artist_like [37, 120, 37]])
   \<and> py_strip [32, 9] = []
   \<and> artist_search
        \<lparr>search_count = [],
         melon_chart_data = [\<lparr>rank = 2, title = [84, 50], artist = [88]\<rparr>,
           \<lparr>rank = 3, title = [84, 51], artist = [89]\<rparr>,
           \<lparr>rank = 1, title = [84, 49], artist = [88]\<rparr>]\<rparr> (Some [32, 9]) = (Inr ([], []), [])"
proof -
  let ?d = "\<lparr>search_count = [],
         melon_chart_data = [\<lparr>rank = 2, title = [84, 50], artist = [88]\<rparr>,
           \<lparr>rank = 3, title = [84, 51], artist = [89]\<rparr>,
           \<lparr>rank = 1, title = [84, 49], artist = [88]\<rparr>]\<rparr>"
  have h: "py_strip [32, 120] \<noteq> [] \<and> 0 \<notin> set (py_strip [32, 120])
      \<and> 37 \<notin> set (py_strip [32, 120]) \<and> 95 \<notin> set (py_strip [32, 120])
      \<and> utf8_length (py_strip [32, 120]) \<le> 49998"
    by (simp add: py_strip_def py_isspace_def utf8_length_def utf8_bytes_def)
  have b: "py_strip [32, 9] = []"
    by (simp add: py_strip_def py_isspace_def)
  note t1 = artist_search_without_wildcards [of "[32, 120]" ?d, THEN conjunct1, THEN mp, OF h]
  note t2 = artist_search_without_wildcards [of "[32, 9]" ?d, THEN conjunct2, THEN conjunct2,
      THEN conjunct2, THEN conjunct1, THEN mp, OF b]
  show ?thesis
    by (intro conjI h t1 t2 b artist_search_example_x)
qed

text \<open>
  C6 as stated, for every query, fails at the query \<open>%\<close>: on the snapshot of the rows
  (2, T2, X), (3, T3, Y), (1, T1, X) all three rows are returned, and no artist has the
  character \<open>%\<close>. It fails at the query \<open>x\<close> too: the two rows of the artist X are
  returned, and X has no character \<open>x\<close>. On a snapshot with the artists X, a U+0000 b
  and U+FFFE, the query U+0000 returns every row, the query \<open>b\<close> misses the artist that
  has a \<open>b\<close> after its U+0000, and the query U+FFFD returns the artist U+FFFE. A query
  of 49,999 letters \<open>a\<close> makes a pattern of 50,001 bytes, which LIKE rejects with
  OperationalError.
\<close>

theorem artist_search_literal_counterexample:
  "fst (artist_search
       \<lparr>search_count = [],
        melon_chart_data = [\<lparr>rank = 2, title = [84, 50], artist = [88]\<rparr>,
          \<lparr>rank = 3, title = [84, 51], artist = [89]\<rparr>,
          \<lparr>rank = 1, title = [84, 49], artist = [88]\<rparr>]\<rparr> (Some [37]))
     = Inr ([37], [\<lparr>rank = 1, title = [84, 49], artist = [88]\<rparr>,
                   \<lparr>rank = 2, title = [84, 50], artist = [88]\<rparr>,
                   \<lparr>rank = 3, title = [84, 51], artist = [89]\<rparr>])
   \<and> (37 :: nat) \<notin> set [88] \<and> (37 :: nat) \<notin> set [89]
   \<and> fst (artist_search
       \<lparr>search_count = [],
        melon_chart_data = [\<lparr>rank = 2, title = [84, 50], artist = [88]\<rparr>,
          \<lparr>rank = 3, title = [84, 51], artist = [89]\<rparr>,
          \<lparr>rank = 1, title = [84, 49], artist = [88]\<rparr>]\<rparr> (Some [32, 120]))
     = Inr ([120], [\<lparr>rank = 1, title = [84, 49], artist = [88]\<rparr>,
                    \<lparr>rank = 2, title = [84, 50], artist = [88]\<rparr>])
   \<and> (120 :: nat) \<notin> set [88]
   \<and> fst (artist_search
       \<lparr>search_count = [],
        melon_chart_data = [\<lparr>rank = 1, title = [84], artist = [88]\<rparr>,
          \<lparr>rank = 2, title = [84], artist = [97, 0, 98]\<rparr>,
          \<lparr>rank = 3, title = [84], artist = [65534]\<rparr>]\<rparr> (Some [0]))
     = Inr ([0], [\<lparr>rank = 1, title = [84], artist = [88]\<rparr>,
                  \<lparr>rank = 2, title = [84], artist = [97, 0, 98]\<rparr>,
                  \<lparr>rank = 3, title = [84], artist = [65534]\<rparr>])
   \<and> (0 :: nat) \<notin> set [88] \<and> (0 :: nat) \<notin> set [65534]
   \<and> fst (artist_search
       \<lparr>search_count = [],
        melon_chart_data = [\<lparr>rank = 1, title = [84], artist = [88]\<rparr>,
          \<lparr>rank = 2, title = [84], artist = [97, 0, 98]\<rparr>,
          \<lparr>rank = 3, title = [84], artist = [65534]\<rparr>]\<rparr> (Some [98]))
     = Inr ([98], [])
   \<and> (98 :: nat) \<in> set [97, 0, 98]
   \<and> fst (artist_search
       \<lparr>search_count = [],
        melon_chart_data = [\<lparr>rank = 1, title = [84], artist = [88]\<rparr>,
          \<lparr>rank = 2, title = [84], artist = [97, 0, 98]\<rparr>,
          \<lparr>rank = 3, title = [84], artist = [65534]\<rparr>]\<rparr> (Some [65533]))
     = Inr ([65533], [\<lparr>rank = 3, title = [84], artist = [65534]\<rparr>])
   \<and> (65533 :: nat) \<notin> set [65534]
   \<and> fst (artist_search
       \<lparr>search_count = [],
        melon_chart_data = [\<lparr>rank = 1, title = [84], artist = [88]\<rparr>,
          \<lparr>rank = 2, title = [84], artist = [97, 0, 98]\<rparr>,
          \<lparr>rank = 3, title = [84], artist = [65534]\<rparr>]\<rparr> (Some (replicate 49999 97)))
     = Inl OperationalError"
  by (simp add: artist_search_example_x artist_search_example_percent artist_search_example_nul
        artist_search_example_after_nul artist_search_example_replacement
        artist_search_example_long)

end
